theory Spec2Isabelle
  imports Complex_Main "HOL-Library.List_Lexorder" "HOL-Library.Char_ord"
begin

section \<open>Data model\<close>

text \<open>
  A JavaScript \<open>Date\<close> is represented by the three observations the two edge functions make
  of it: \<open>getTime()\<close> (milliseconds since the epoch), \<open>getFullYear()\<close> and \<open>getMonth()\<close>.
  The ISO strings kept in the store are parsed back into such a value, so the columns hold
  the value itself.
\<close>

record Date =
  getTime :: int
  getFullYear :: int
  getMonth :: int

text \<open>A row of the table \<open>ai_models\<close>, with the columns the two functions read or write.\<close>

record ai_model =
  codename :: string
  original_name :: string
  credit_status :: bool
  current_daily_usage :: int
  current_monthly_usage :: int
  daily_limit :: int
  monthly_limit :: int
  last_reset_daily :: Date
  last_reset_monthly :: Date
  last_checked :: Date

text \<open>A row of the table \<open>ai_usage_tracking\<close>, as \<open>trackUsage\<close> inserts it.\<close>

record usage_row =
  model_codename :: string
  session_id :: string
  requests_made :: int
  tokens_used :: int

text \<open>The store: both tables, rows in the order in which a query without ordering returns them.\<close>

record db =
  ai_models :: "ai_model list"
  ai_usage_tracking :: "usage_row list"

text \<open>
  A JavaScript number is an IEEE 754 double: a finite value, which is a rational number, or
  \<open>NaN\<close>, or one of the two infinities. The two zeros are one value here: they differ in no
  operation the functions apply. The finite values that occur are those a double can hold;
  the arithmetic below rounds every result to such a value, as the language does.
\<close>

datatype number = Finite rat | NaN | PlusInfinity | MinusInfinity

text \<open>
  \<open>InterviewContext\<close>, as it is parsed from the body of the request: \<open>questionNumber\<close> and
  \<open>difficulty\<close> are numbers, integral or not; the two optional fields are \<open>None\<close> when absent.
\<close>

record InterviewContext =
  sessionId :: string
  sessionType :: string
  difficulty :: number
  questionNumber :: number
  previousQuestions :: "string list"
  userResponse :: "string option"
  audioData :: "string option"

section \<open>Fallback content (ai-orchestrator)\<close>

text \<open>
  Rounding of a rational number to the nearest double, ties to the even significand
  (the rounding of every arithmetic operation of the language): 53 significant bits, the
  least exponent that of the subnormal numbers, and an infinity when the rounded value
  reaches \<open>2 ^ 1024\<close>. \<open>bitlength n\<close> is the number of binary digits of \<open>n\<close> and
  \<open>floor_log2 x\<close> the integral part of the binary logarithm of a positive \<open>x\<close>.
\<close>

fun bitlength :: "nat \<Rightarrow> nat" where
  "bitlength n = (if n = 0 then 0 else Suc (bitlength (n div 2)))"

declare bitlength.simps [simp del]

definition floor_log2 :: "rat \<Rightarrow> int" where
  "floor_log2 x =
     (if 1 \<le> x then int (bitlength (nat \<lfloor>x\<rfloor>)) - 1
      else - int (bitlength (nat (\<lceil>1 / x\<rceil> - 1))))"

definition pow2 :: "int \<Rightarrow> rat" where
  "pow2 p = (if 0 \<le> p then 2 ^ nat p else 1 / 2 ^ nat (- p))"

definition round_half_even :: "rat \<Rightarrow> int" where
  "round_half_even x =
     (if x - of_int \<lfloor>x\<rfloor> < 1 / 2 then \<lfloor>x\<rfloor>
      else if 1 / 2 < x - of_int \<lfloor>x\<rfloor> then \<lfloor>x\<rfloor> + 1
      else if even \<lfloor>x\<rfloor> then \<lfloor>x\<rfloor> else \<lfloor>x\<rfloor> + 1)"

definition to_double :: "rat \<Rightarrow> number" where
  "to_double x =
     (if x = 0 then Finite 0
      else let q = pow2 (max (floor_log2 \<bar>x\<bar>) (- 1022) - 52);
               y = of_int (round_half_even (x / q)) * q
           in if 2 ^ 1024 \<le> \<bar>y\<bar> then (if 0 < x then PlusInfinity else MinusInfinity)
              else Finite y)"

text \<open>The operator \<open>-\<close> on numbers.\<close>

fun js_minus :: "number \<Rightarrow> number \<Rightarrow> number" where
  "js_minus (Finite a) (Finite b) = to_double (a - b)"
| "js_minus NaN y = NaN"
| "js_minus x NaN = NaN"
| "js_minus PlusInfinity PlusInfinity = NaN"
| "js_minus MinusInfinity MinusInfinity = NaN"
| "js_minus PlusInfinity y = PlusInfinity"
| "js_minus MinusInfinity y = MinusInfinity"
| "js_minus (Finite a) PlusInfinity = MinusInfinity"
| "js_minus (Finite a) MinusInfinity = PlusInfinity"

text \<open>
  The remainder operator \<open>%\<close> on numbers: the result takes the sign of the dividend and is
  exact; it is \<open>NaN\<close> for a dividend that is not finite and for the divisor zero.
\<close>

fun js_rem :: "number \<Rightarrow> number \<Rightarrow> number" where
  "js_rem (Finite a) (Finite b) =
     (if b = 0 then NaN
      else Finite (sgn a * (\<bar>a\<bar> - \<bar>b\<bar> * of_int \<lfloor>\<bar>a\<bar> / \<bar>b\<bar>\<rfloor>)))"
| "js_rem (Finite a) PlusInfinity = Finite a"
| "js_rem (Finite a) MinusInfinity = Finite a"
| "js_rem x y = NaN"

text \<open>
  Reading an array at a number: an element for an integral index from 0 to \<open>length - 1\<close>,
  and \<open>undefined\<close> (\<open>None\<close>) for every other number.
\<close>

definition js_index :: "'a list \<Rightarrow> number \<Rightarrow> 'a option" where
  "js_index xs i =
     (case i of
        Finite r \<Rightarrow>
          if r = of_int \<lfloor>r\<rfloor> \<and> 0 \<le> r \<and> r < of_nat (length xs) then Some (xs ! nat \<lfloor>r\<rfloor>)
          else None
      | _ \<Rightarrow> None)"

definition questions :: "string list" where
  "questions =
    [''Tell me about a challenging project you've worked on recently.'',
     ''How do you handle working under pressure and tight deadlines?'',
     ''What motivates you in your professional work?'',
     ''Describe a time when you had to learn something new quickly.'',
     ''What are your greatest professional strengths?'']"

definition getFallbackQuestion :: "InterviewContext \<Rightarrow> string option" where
  "getFallbackQuestion context =
     js_index questions
       (js_rem (js_minus (questionNumber context) (Finite 1))
          (Finite (of_nat (length questions))))"

section \<open>Store access (ai-orchestrator)\<close>

text \<open>
  The store answers every query; a table is a list of rows and a query without an ordering
  clause returns the matching rows in the order of the table. \<open>getAvailableModels\<close> is the
  query \<open>.in('codename', modelNames).eq('credit_status', true)\<close>.
\<close>

definition getAvailableModels :: "string list \<Rightarrow> db \<Rightarrow> ai_model list" where
  "getAvailableModels modelNames d =
     filter (\<lambda>m. codename m \<in> set modelNames \<and> credit_status m) (ai_models d)"

text \<open>\<open>.single()\<close> yields no data unless exactly one row matches; no data counts as \<open>false\<close>.\<close>

definition isModelAvailable :: "string \<Rightarrow> db \<Rightarrow> bool" where
  "isModelAvailable c d =
     (case filter (\<lambda>m. codename m = c) (ai_models d) of
        [m] \<Rightarrow> credit_status m
      | _ \<Rightarrow> False)"

text \<open>The clock reading \<open>new Date()\<close> is the argument \<open>now\<close>.\<close>

definition markModelUnavailable :: "Date \<Rightarrow> string \<Rightarrow> db \<Rightarrow> db" where
  "markModelUnavailable now c d =
     d\<lparr>ai_models :=
         map (\<lambda>m. if codename m = c then m\<lparr>credit_status := False, last_checked := now\<rparr> else m)
           (ai_models d)\<rparr>"

text \<open>
  The stored procedure \<open>update_model_usage\<close> lives in the database, not in the two functions;
  it is a parameter of the model: given \<open>model_name\<close>, \<open>requests_to_add\<close> and \<open>tokens_to_add\<close>
  it transforms the store.
\<close>

type_synonym rpc = "string \<Rightarrow> int \<Rightarrow> int \<Rightarrow> db \<Rightarrow> db"

definition trackUsage :: "rpc \<Rightarrow> string \<Rightarrow> string \<Rightarrow> int \<Rightarrow> int \<Rightarrow> db \<Rightarrow> db" where
  "trackUsage update_model_usage modelCodename sessId requests tokens d =
     update_model_usage modelCodename requests tokens
       (d\<lparr>ai_usage_tracking := ai_usage_tracking d @
            [\<lparr>model_codename = modelCodename, session_id = sessId,
              requests_made = requests, tokens_used = tokens\<rparr>]\<rparr>)"

text \<open>
  \<open>getModelStatus\<close> selects six columns, ordered by \<open>codename\<close>:
  (codename, credit_status, current_daily_usage, current_monthly_usage, daily_limit,
  monthly_limit).
\<close>

type_synonym model_status = "string \<times> bool \<times> int \<times> int \<times> int \<times> int"

definition getModelStatus :: "db \<Rightarrow> model_status list" where
  "getModelStatus d =
     map (\<lambda>m. (codename m, credit_status m, current_daily_usage m, current_monthly_usage m,
               daily_limit m, monthly_limit m))
       (sort_key codename (ai_models d))"

section \<open>Configuration, provider adapters and responses (ai-orchestrator)\<close>

text \<open>
  Environment variables are \<open>None\<close> when unset; an unset or empty one is falsy. The two
  endpoints carry their defaults when the variable is unset.
\<close>

record config =
  GROQ_API_KEY :: "string option"
  MISTRAL_API_KEY :: "string option"
  ANTHROPIC_API_KEY :: "string option"
  ELEVENLABS_API_KEY :: "string option"
  AZURE_SPEECH_KEY :: "string option"
  NOVA_ENDPOINT :: string
  ECHO_ENDPOINT :: string

definition truthy :: "string option \<Rightarrow> bool" where
  "truthy s = (case s of None \<Rightarrow> False | Some v \<Rightarrow> v \<noteq> [])"

definition or_empty :: "string option \<Rightarrow> string" where
  "or_empty s = (case s of None \<Rightarrow> [] | Some v \<Rightarrow> v)"

text \<open>
  A provider adapter performs one network call and either throws or returns its payload; what
  the network answers is outside the program and is a parameter. For the adapters that return
  a text, a falsy payload (\<open>undefined\<close>, \<open>null\<close>, the empty string) is the empty string. The
  payload of \<open>callLocalSTT\<close> is \<open>None\<close> when it is \<open>undefined\<close>, since the caller reads its
  length.
\<close>

datatype 'a outcome = Throws | Returns 'a

record network =
  callGroqAPI :: "InterviewContext \<Rightarrow> string outcome"
  callMistralAPI :: "InterviewContext \<Rightarrow> string outcome"
  callLocalModel :: "string \<Rightarrow> InterviewContext \<Rightarrow> string outcome"
  evaluateWithAthena :: "string \<Rightarrow> InterviewContext \<Rightarrow> string outcome"
  callElevenLabsAPI :: "string \<Rightarrow> string outcome"
  callAzureTTS :: "string \<Rightarrow> string outcome"
  callLocalSTT :: "string option \<Rightarrow> string option outcome"

record scores =
  clarity :: int
  confidence :: int
  content :: int
  tone :: int

datatype body =
    ErrorBody (error: string) (unavailableModels: "string list")
  | QuestionBody (question: "string option") (usedModel: string)
      (evaluation: "string option") (modelStatus: "model_status list")
  | EvaluationBody (evaluation_text: string) (usedModel: string) (scores_of: "scores option")
  | SpeechBody (audioUrl: string) (usedModel: string)
  | BrowserTTSBody (error: string) (useBrowserTTS: bool)
  | TranscriptBody (transcript: string) (usedModel: string)

text \<open>A \<open>Response\<close> built without an explicit status has status 200.\<close>

record Response =
  status :: nat
  body :: body

definition getFallbackEvaluation :: "InterviewContext \<Rightarrow> Response" where
  "getFallbackEvaluation context =
     \<lparr>status = 200,
      body = EvaluationBody ''Response received and noted. Continue with the interview.''
               ''Fallback''
               (Some \<lparr>clarity = 7, confidence = 7, content = 7, tone = 7\<rparr>)\<rparr>"

section \<open>Question generation (ai-orchestrator)\<close>

text \<open>
  The branch of the \<open>if\<close> chain in the loop body that a row selects: the name it assigns to
  \<open>usedModel\<close> and the outcome of the adapter call it makes; \<open>None\<close> when no branch applies
  and the row is passed over.
\<close>

definition selectAdapter ::
  "config \<Rightarrow> network \<Rightarrow> InterviewContext \<Rightarrow> ai_model \<Rightarrow> (string \<times> string outcome) option"
  where
  "selectAdapter cfg net context model =
     (if codename model = ''Orion'' \<and> truthy (GROQ_API_KEY cfg) then
        Some (''Orion'', callGroqAPI net context)
      else if codename model = ''Titan'' \<and> truthy (MISTRAL_API_KEY cfg) then
        Some (''Titan'', callMistralAPI net context)
      else if codename model = ''Nova'' then
        Some (''Nova'', callLocalModel net (NOVA_ENDPOINT cfg) context)
      else None)"

text \<open>
  The loop \<open>for (const model of availableModels)\<close>. It returns the store, \<open>question\<close>,
  \<open>usedModel\<close> and the adapter calls it made, in order, each with its outcome. A call that
  returns ends the loop (\<open>break\<close>); a call that throws is followed by
  \<open>markModelUnavailable\<close> and the next row (\<open>continue\<close>).
\<close>

fun tryModels ::
  "config \<Rightarrow> network \<Rightarrow> Date \<Rightarrow> InterviewContext \<Rightarrow> ai_model list \<Rightarrow> db \<Rightarrow>
   db \<times> string \<times> string \<times> (string \<times> string outcome) list" where
  "tryModels cfg net now context [] d = (d, [], [], [])"
| "tryModels cfg net now context (model # rest) d =
     (case selectAdapter cfg net context model of
        None \<Rightarrow> tryModels cfg net now context rest d
      | Some (used, Returns q) \<Rightarrow> (d, q, used, [(codename model, Returns q)])
      | Some (used, Throws) \<Rightarrow>
          (case tryModels cfg net now context rest (markModelUnavailable now (codename model) d) of
             (d', q, u, calls) \<Rightarrow> (d', q, u, (codename model, Throws) # calls)))"

definition generateInterviewQuestion ::
  "config \<Rightarrow> network \<Rightarrow> rpc \<Rightarrow> Date \<Rightarrow> InterviewContext \<Rightarrow> db \<Rightarrow> db \<times> Response" where
  "generateInterviewQuestion cfg net update_model_usage now context d =
     (let availableModels = getAvailableModels [''Orion'', ''Titan'', ''Nova''] d in
      if length availableModels = 0 then
        (d, \<lparr>status = 503,
             body = ErrorBody ''No AI models available'' [''Orion'', ''Titan'', ''Nova'']\<rparr>)
      else
        (case tryModels cfg net now context availableModels d of
           (d1, q, u, calls) \<Rightarrow>
             let question = (if q = [] then getFallbackQuestion context else Some q);
                 usedModel = (if q = [] then ''Fallback'' else u);
                 d2 = (if usedModel \<noteq> ''Fallback''
                       then trackUsage update_model_usage usedModel (sessionId context) 1
                              (int (length q)) d1
                       else d1);
                 athenaAvailable = isModelAvailable ''Athena'' d2;
                 evaluation =
                   (if athenaAvailable \<and> truthy (userResponse context) then
                      (case evaluateWithAthena net (or_empty (userResponse context)) context of
                         Returns ev \<Rightarrow> Some ev
                       | Throws \<Rightarrow> None)
                    else None)
             in (d2, \<lparr>status = 200,
                      body = QuestionBody question usedModel evaluation (getModelStatus d2)\<rparr>)))"

section \<open>Response evaluation (ai-orchestrator)\<close>

definition evaluateResponse ::
  "config \<Rightarrow> network \<Rightarrow> rpc \<Rightarrow> Date \<Rightarrow> InterviewContext \<Rightarrow> db \<Rightarrow> db \<times> Response" where
  "evaluateResponse cfg net update_model_usage now context d =
     (let athenaAvailable = isModelAvailable ''Athena'' d in
      if \<not> athenaAvailable \<or> \<not> truthy (ANTHROPIC_API_KEY cfg) then
        (d, getFallbackEvaluation context)
      else
        (case evaluateWithAthena net (or_empty (userResponse context)) context of
           Returns ev \<Rightarrow>
             (trackUsage update_model_usage ''Athena'' (sessionId context) 1
                (int (length (or_empty (userResponse context)))) d,
              \<lparr>status = 200, body = EvaluationBody ev ''Athena'' None\<rparr>)
         | Throws \<Rightarrow> (markModelUnavailable now ''Athena'' d, getFallbackEvaluation context)))"

section \<open>Speech synthesis (ai-orchestrator)\<close>

text \<open>The branch of the \<open>if\<close> chain in the loop body of \<open>generateSpeech\<close> that a row selects.\<close>

definition selectSpeechAdapter ::
  "config \<Rightarrow> network \<Rightarrow> InterviewContext \<Rightarrow> ai_model \<Rightarrow> (string \<times> string outcome) option"
  where
  "selectSpeechAdapter cfg net context model =
     (if codename model = ''Vox'' \<and> truthy (ELEVENLABS_API_KEY cfg) then
        Some (''Vox'', callElevenLabsAPI net (or_empty (userResponse context)))
      else if codename model = ''Aether'' \<and> truthy (AZURE_SPEECH_KEY cfg) then
        Some (''Aether'', callAzureTTS net (or_empty (userResponse context)))
      else None)"

text \<open>
  The loop of \<open>generateSpeech\<close>. A call that returns is followed by \<open>trackUsage\<close> and ends the
  request with its response; a call that throws is followed by \<open>markModelUnavailable\<close> and the
  next row. The result is the store, the response if a call returned, and the calls made.
\<close>

fun trySpeech ::
  "config \<Rightarrow> network \<Rightarrow> rpc \<Rightarrow> Date \<Rightarrow> InterviewContext \<Rightarrow> ai_model list \<Rightarrow> db \<Rightarrow>
   db \<times> Response option \<times> (string \<times> string outcome) list" where
  "trySpeech cfg net update_model_usage now context [] d = (d, None, [])"
| "trySpeech cfg net update_model_usage now context (model # rest) d =
     (case selectSpeechAdapter cfg net context model of
        None \<Rightarrow> trySpeech cfg net update_model_usage now context rest d
      | Some (used, Returns url) \<Rightarrow>
          (trackUsage update_model_usage used (sessionId context) 1
             (int (length (or_empty (userResponse context)))) d,
           Some \<lparr>status = 200, body = SpeechBody url used\<rparr>,
           [(codename model, Returns url)])
      | Some (used, Throws) \<Rightarrow>
          (case trySpeech cfg net update_model_usage now context rest
                  (markModelUnavailable now (codename model) d) of
             (d', r, calls) \<Rightarrow> (d', r, (codename model, Throws) # calls)))"

definition generateSpeech ::
  "config \<Rightarrow> network \<Rightarrow> rpc \<Rightarrow> Date \<Rightarrow> InterviewContext \<Rightarrow> db \<Rightarrow> db \<times> Response" where
  "generateSpeech cfg net update_model_usage now context d =
     (let availableModels = getAvailableModels [''Vox'', ''Aether''] d in
      if length availableModels = 0 then
        (d, \<lparr>status = 503,
             body = ErrorBody ''No TTS models available'' [''Vox'', ''Aether'']\<rparr>)
      else
        (case trySpeech cfg net update_model_usage now context availableModels d of
           (d', Some response, calls) \<Rightarrow> (d', response)
         | (d', None, calls) \<Rightarrow>
             (d', \<lparr>status = 200, body = BrowserTTSBody ''All TTS models failed'' True\<rparr>)))"

section \<open>Speech recognition (ai-orchestrator)\<close>


section \<open>Credit monitor: the check of one row\<close>

definition daysSinceReset :: "Date \<Rightarrow> ai_model \<Rightarrow> int" where
  "daysSinceReset now model =
     (getTime now - getTime (last_reset_daily model)) div (1000 * 60 * 60 * 24)"

definition monthsSinceReset :: "Date \<Rightarrow> ai_model \<Rightarrow> int" where
  "monthsSinceReset now model =
     (getFullYear now - getFullYear (last_reset_monthly model)) * 12 +
     (getMonth now - getMonth (last_reset_monthly model))"

text \<open>An entry of \<open>exhaustedModels\<close> as \<open>check_credits\<close> reports it.\<close>

record exhausted =
  ex_codename :: string
  reason :: string
  usage :: int
  limit :: int

text \<open>An element of \<open>updates\<close>: the columns written back to the row of that codename.\<close>

record credit_update =
  u_codename :: string
  u_credit_status :: bool
  u_current_daily_usage :: int
  u_current_monthly_usage :: int
  u_last_reset_daily :: Date
  u_last_reset_monthly :: Date
  u_last_checked :: Date

text \<open>
  The local variables of the body of the loop over \<open>models\<close> in \<open>checkAndUpdateCredits\<close>, at
  the end of the body, as functions of \<open>now\<close> and the row.
\<close>

definition newDailyUsage :: "Date \<Rightarrow> ai_model \<Rightarrow> int" where
  "newDailyUsage now model =
     (if daysSinceReset now model \<ge> 1 then 0 else current_daily_usage model)"

definition newDailyReset :: "Date \<Rightarrow> ai_model \<Rightarrow> Date" where
  "newDailyReset now model =
     (if daysSinceReset now model \<ge> 1 then now else last_reset_daily model)"

definition newMonthlyUsage :: "Date \<Rightarrow> ai_model \<Rightarrow> int" where
  "newMonthlyUsage now model =
     (if monthsSinceReset now model \<ge> 1 then 0 else current_monthly_usage model)"

definition newMonthlyReset :: "Date \<Rightarrow> ai_model \<Rightarrow> Date" where
  "newMonthlyReset now model =
     (if monthsSinceReset now model \<ge> 1 then now else last_reset_monthly model)"

definition dailyExceeded :: "Date \<Rightarrow> ai_model \<Rightarrow> bool" where
  "dailyExceeded now model =
     (daily_limit model > 0 \<and> newDailyUsage now model \<ge> daily_limit model)"

definition monthlyExceeded :: "Date \<Rightarrow> ai_model \<Rightarrow> bool" where
  "monthlyExceeded now model =
     (monthly_limit model > 0 \<and> newMonthlyUsage now model \<ge> monthly_limit model)"

definition newStatus :: "Date \<Rightarrow> ai_model \<Rightarrow> bool" where
  "newStatus now model =
     (if dailyExceeded now model \<or> monthlyExceeded now model then False
      else if \<not> credit_status model \<and>
              (daysSinceReset now model \<ge> 1 \<or> monthsSinceReset now model \<ge> 1) then True
      else credit_status model)"

definition needsUpdate :: "Date \<Rightarrow> ai_model \<Rightarrow> bool" where
  "needsUpdate now model =
     (daysSinceReset now model \<ge> 1 \<or> monthsSinceReset now model \<ge> 1 \<or>
      (if dailyExceeded now model \<or> monthlyExceeded now model then True
       else \<not> credit_status model \<and>
            (daysSinceReset now model \<ge> 1 \<or> monthsSinceReset now model \<ge> 1)))"

text \<open>What the body pushes on \<open>exhaustedModels\<close> and on \<open>updates\<close> for one row, if anything.\<close>

definition checkModel :: "Date \<Rightarrow> ai_model \<Rightarrow> exhausted option \<times> credit_update option" where
  "checkModel now model =
     (if (dailyExceeded now model \<or> monthlyExceeded now model) \<and> credit_status model then
        Some \<lparr>ex_codename = codename model,
              reason = (if dailyExceeded now model then ''Daily limit exceeded''
                        else ''Monthly limit exceeded''),
              usage = (if dailyExceeded now model then newDailyUsage now model
                       else newMonthlyUsage now model),
              limit = (if dailyExceeded now model then daily_limit model
                       else monthly_limit model)\<rparr>
      else None,
      if needsUpdate now model then
        Some \<lparr>u_codename = codename model,
              u_credit_status = newStatus now model,
              u_current_daily_usage = newDailyUsage now model,
              u_current_monthly_usage = newMonthlyUsage now model,
              u_last_reset_daily = newDailyReset now model,
              u_last_reset_monthly = newMonthlyReset now model,
              u_last_checked = now\<rparr>
      else None)"

section \<open>Credit monitor: the batch\<close>

definition pushed :: "'a list \<Rightarrow> 'a option \<Rightarrow> 'a list" where
  "pushed xs x = (case x of None \<Rightarrow> xs | Some v \<Rightarrow> xs @ [v])"

text \<open>The loop \<open>for (const model of models)\<close> with its two accumulators.\<close>

fun checkModels ::
  "Date \<Rightarrow> ai_model list \<Rightarrow> exhausted list \<Rightarrow> credit_update list \<Rightarrow>
   exhausted list \<times> credit_update list" where
  "checkModels now [] exhaustedModels updates = (exhaustedModels, updates)"
| "checkModels now (model # rest) exhaustedModels updates =
     checkModels now rest
       (pushed exhaustedModels (fst (checkModel now model)))
       (pushed updates (snd (checkModel now model)))"

text \<open>\<open>.update(update).eq('codename', update.codename)\<close> on the table.\<close>

definition setColumns :: "credit_update \<Rightarrow> ai_model \<Rightarrow> ai_model" where
  "setColumns u m =
     m\<lparr>codename := u_codename u,
       credit_status := u_credit_status u,
       current_daily_usage := u_current_daily_usage u,
       current_monthly_usage := u_current_monthly_usage u,
       last_reset_daily := u_last_reset_daily u,
       last_reset_monthly := u_last_reset_monthly u,
       last_checked := u_last_checked u\<rparr>"

definition applyUpdate :: "ai_model list \<Rightarrow> credit_update \<Rightarrow> ai_model list" where
  "applyUpdate table u = map (\<lambda>m. if codename m = u_codename u then setColumns u m else m) table"

record credits_report =
  success :: bool
  exhaustedModels :: "exhausted list"
  updatedModels :: nat
  timestamp :: Date

text \<open>
  The result of \<open>select('*')\<close> on \<open>ai_models\<close>; \<open>None\<close> would be the \<open>null\<close> data of a failed
  query, which \<open>checkAndUpdateCredits\<close> turns into the error \<open>Failed to fetch models\<close>.
\<close>

definition select_all :: "db \<Rightarrow> ai_model list option" where
  "select_all d = Some (ai_models d)"

definition checkAndUpdateCredits :: "Date \<Rightarrow> db \<Rightarrow> string + db \<times> credits_report" where
  "checkAndUpdateCredits now d =
     (case select_all d of
        None \<Rightarrow> Inl ''Failed to fetch models''
      | Some models \<Rightarrow>
          (case checkModels now models [] [] of
             (exhaustedList, updates) \<Rightarrow>
               Inr (d\<lparr>ai_models := foldl applyUpdate (ai_models d) updates\<rparr>,
                    \<lparr>success = True, exhaustedModels = exhaustedList,
                     updatedModels = length updates, timestamp = now\<rparr>)))"

section \<open>Credit monitor: the exhausted providers\<close>

record exhausted_model =
  em_codename :: string
  name :: string
  dailyUsage :: int
  monthlyUsage :: int
  dailyLimit :: int
  monthlyLimit :: int
  em_reason :: string

definition getExhaustedModels :: "db \<Rightarrow> exhausted_model list" where
  "getExhaustedModels d =
     map (\<lambda>model.
           \<lparr>em_codename = codename model,
            name = original_name model,
            dailyUsage = current_daily_usage model,
            monthlyUsage = current_monthly_usage model,
            dailyLimit = daily_limit model,
            monthlyLimit = monthly_limit model,
            em_reason =
              (if daily_limit model > 0 \<and> current_daily_usage model \<ge> daily_limit model
               then ''Daily limit exceeded''
               else ''Monthly limit exceeded'')\<rparr>)
       (filter (\<lambda>m. \<not> credit_status m) (ai_models d))"

section \<open>Observations on a request\<close>

text \<open>The providers whose adapters a \<open>generate_question\<close> request calls, in the order of the calls.\<close>

definition attemptedProviders ::
  "config \<Rightarrow> network \<Rightarrow> Date \<Rightarrow> InterviewContext \<Rightarrow> db \<Rightarrow> string list" where
  "attemptedProviders cfg net now context d =
     map fst (snd (snd (snd
       (tryModels cfg net now context (getAvailableModels [''Orion'', ''Titan'', ''Nova''] d) d))))"



section \<open>Observations on a credit check\<close>

text \<open>The row as \<open>check_credits\<close> writes it back.\<close>

definition written :: "Date \<Rightarrow> ai_model \<Rightarrow> ai_model" where
  "written now m =
     m\<lparr>credit_status := newStatus now m,
       current_daily_usage := newDailyUsage now m,
       current_monthly_usage := newMonthlyUsage now m,
       last_reset_daily := newDailyReset now m,
       last_reset_monthly := newMonthlyReset now m,
       last_checked := now\<rparr>"

text \<open>The check changes the status, a counter or a reset timestamp of the row.\<close>

definition changed :: "Date \<Rightarrow> ai_model \<Rightarrow> bool" where
  "changed now m =
     (newStatus now m \<noteq> credit_status m \<or>
      newDailyUsage now m \<noteq> current_daily_usage m \<or>
      newMonthlyUsage now m \<noteq> current_monthly_usage m \<or>
      newDailyReset now m \<noteq> last_reset_daily m \<or>
      newMonthlyReset now m \<noteq> last_reset_monthly m)"

text \<open>
  The effect of one update on one row, and the list \<open>updates\<close> that the loop over the rows
  builds.
\<close>

definition applyToRow :: "ai_model \<Rightarrow> credit_update \<Rightarrow> ai_model" where
  "applyToRow r u = (if codename r = u_codename u then setColumns u r else r)"

definition updates_of :: "Date \<Rightarrow> ai_model list \<Rightarrow> credit_update list" where
  "updates_of now ms = List.map_filter (\<lambda>m. snd (checkModel now m)) ms"

section \<open>Example data\<close>

text \<open>Day \<open>n\<close> of January 1970, at midnight.\<close>

definition january :: "int \<Rightarrow> Date" where
  "january n = \<lparr>getTime = n * 86400000, getFullYear = 1970, getMonth = 0\<rparr>"

definition provider :: "string \<Rightarrow> bool \<Rightarrow> ai_model" where
  "provider c s =
     \<lparr>codename = c, original_name = c, credit_status = s,
      current_daily_usage = 0, current_monthly_usage = 0,
      daily_limit = 100, monthly_limit = 1000,
      last_reset_daily = january 10, last_reset_monthly = january 10,
      last_checked = january 10\<rparr>"

definition store_of :: "ai_model list \<Rightarrow> db" where
  "store_of ms = \<lparr>ai_models = ms, ai_usage_tracking = []\<rparr>"

definition all_keys :: config where
  "all_keys = \<lparr>GROQ_API_KEY = Some ''gk'', MISTRAL_API_KEY = Some ''mk'',
     ANTHROPIC_API_KEY = Some ''ak'', ELEVENLABS_API_KEY = Some ''ek'',
     AZURE_SPEECH_KEY = Some ''zk'', NOVA_ENDPOINT = ''http://localhost:8001'',
     ECHO_ENDPOINT = ''http://localhost:8003''\<rparr>"

text \<open>
  A network in which the four text adapters have the given outcomes and the speech services
  do not answer.
\<close>

definition answers ::
  "string outcome \<Rightarrow> string outcome \<Rightarrow> string outcome \<Rightarrow> string outcome \<Rightarrow> network" where
  "answers g m l a =
     \<lparr>callGroqAPI = (\<lambda>_. g), callMistralAPI = (\<lambda>_. m), callLocalModel = (\<lambda>_ _. l),
      evaluateWithAthena = (\<lambda>_ _. a), callElevenLabsAPI = (\<lambda>_. Throws),
      callAzureTTS = (\<lambda>_. Throws), callLocalSTT = (\<lambda>_. Throws)\<rparr>"

text \<open>An example of the stored procedure: it adds the requests to both counters.\<close>

definition add_requests :: rpc where
  "add_requests model_name requests_to_add tokens_to_add d =
     d\<lparr>ai_models :=
         map (\<lambda>m. if codename m = model_name
                   then m\<lparr>current_daily_usage := current_daily_usage m + requests_to_add,
                          current_monthly_usage := current_monthly_usage m + requests_to_add\<rparr>
                   else m) (ai_models d)\<rparr>"

text \<open>Stores, configurations and network answers for the requests.\<close>

definition store_nova_first :: db where
  "store_nova_first =
     store_of [provider ''Nova'' True, provider ''Orion'' True, provider ''Titan'' True]"

definition store_orion_first :: db where
  "store_orion_first =
     store_of [provider ''Orion'' True, provider ''Titan'' True, provider ''Nova'' True]"

definition all_answer :: network where
  "all_answer = answers (Returns ''Q-orion'') (Returns ''Q-titan'') (Returns ''Q-nova'') (Returns ''fine'')"

definition store_all_false :: db where
  "store_all_false =
     store_of [provider ''Orion'' False, provider ''Titan'' False, provider ''Nova'' False]"

definition no_keys :: config where
  "no_keys = \<lparr>GROQ_API_KEY = None, MISTRAL_API_KEY = None, ANTHROPIC_API_KEY = None,
     ELEVENLABS_API_KEY = None, AZURE_SPEECH_KEY = None,
     NOVA_ENDPOINT = ''http://localhost:8001'', ECHO_ENDPOINT = ''http://localhost:8003''\<rparr>"

definition all_throw :: network where
  "all_throw = answers Throws Throws Throws Throws"

definition store_orion_nova :: db where
  "store_orion_nova =
     store_of [provider ''Orion'' True, provider ''Titan'' False, provider ''Nova'' True]"






definition store_athena :: "bool \<Rightarrow> db" where
  "store_athena s = store_of [provider ''Orion'' True, provider ''Athena'' s]"

text \<open>Rows for the credit check.\<close>

definition one_hour_into_january_10 :: Date where
  "one_hour_into_january_10 = \<lparr>getTime = 10 * 86400000 + 3600000, getFullYear = 1970, getMonth = 0\<rparr>"

definition orion_over_daily :: ai_model where
  "orion_over_daily =
     \<lparr>codename = ''Orion'', original_name = ''llama-3.1-70b'', credit_status = False,
      current_daily_usage = 150, current_monthly_usage = 150,
      daily_limit = 100, monthly_limit = 1000,
      last_reset_daily = january 10, last_reset_monthly = january 10,
      last_checked = january 10\<rparr>"

definition orion_two_days :: "bool \<Rightarrow> int \<Rightarrow> ai_model" where
  "orion_two_days s monthly =
     \<lparr>codename = ''Orion'', original_name = ''llama-3.1-70b'', credit_status = s,
      current_daily_usage = 150, current_monthly_usage = monthly,
      daily_limit = 100, monthly_limit = 1000,
      last_reset_daily = january 8, last_reset_monthly = january 8,
      last_checked = january 8\<rparr>"

definition store_over_daily :: db where
  "store_over_daily = store_of [orion_over_daily, provider ''Titan'' True]"

text \<open>Contexts with an integral question number, and one with the question number 3/2.\<close>

definition context_q :: "int \<Rightarrow> InterviewContext" where
  "context_q n =
     \<lparr>sessionId = ''session-1'', sessionType = ''behavioral'', difficulty = Finite 5,
      questionNumber = Finite (of_int n), previousQuestions = [], userResponse = None,
      audioData = None\<rparr>"

definition context_q' :: "int \<Rightarrow> InterviewContext" where
  "context_q' n =
     \<lparr>sessionId = ''session-2'', sessionType = ''technical'', difficulty = Finite 9,
      questionNumber = Finite (of_int n), previousQuestions = [''Why?''],
      userResponse = Some ''yes'',
      audioData = None\<rparr>"

definition context_three_halves :: InterviewContext where
  "context_three_halves =
     \<lparr>sessionId = ''session-3'', sessionType = ''behavioral'', difficulty = Finite 5,
      questionNumber = Finite (3 / 2), previousQuestions = [], userResponse = None,
      audioData = None\<rparr>"


section \<open>Properties of the arithmetic on numbers\<close>

lemma bitlength_0: "bitlength 0 = 0"
  by (simp add: bitlength.simps)

lemma bitlength_pos: "0 < n \<Longrightarrow> bitlength n = Suc (bitlength (n div 2))"
  by (subst bitlength.simps) simp

lemma bitlength_le: "n < 2 ^ k \<Longrightarrow> bitlength n \<le> k"
proof (induction k arbitrary: n)
  case 0
  then show ?case by (simp add: bitlength_0)
next
  case (Suc k)
  show ?case
  proof (cases "n = 0")
    case True
    then show ?thesis by (simp add: bitlength_0)
  next
    case False
    from Suc.prems have "n div 2 < 2 ^ k" by simp
    then have "bitlength (n div 2) \<le> k" by (rule Suc.IH)
    with False show ?thesis by (simp add: bitlength_pos)
  qed
qed

lemma bitlength_gt: "2 ^ k \<le> n \<Longrightarrow> k < bitlength n"
proof (induction k arbitrary: n)
  case 0
  then show ?case by (simp add: bitlength_pos)
next
  case (Suc k)
  have "(0 :: nat) < 2 ^ Suc k" by simp
  with Suc.prems have pos: "0 < n" by linarith
  from Suc.prems have "2 ^ k \<le> n div 2" by simp
  then have "k < bitlength (n div 2)" by (rule Suc.IH)
  with pos show ?case by (simp add: bitlength_pos)
qed

lemma bitlength_eq: "2 ^ k \<le> n \<Longrightarrow> n < 2 ^ Suc k \<Longrightarrow> bitlength n = Suc k"
  using bitlength_le [of n "Suc k"] bitlength_gt [of k n] by simp

lemma round_half_even_int: "round_half_even (of_int k) = k"
  by (simp add: round_half_even_def)

lemma floor_log2_int:
  assumes "m \<noteq> 0"
  shows "floor_log2 \<bar>of_int m\<bar> = int (bitlength (nat \<bar>m\<bar>)) - 1"
proof -
  from assms have "1 \<le> \<bar>m\<bar>" by linarith
  then have "(1::rat) \<le> of_int \<bar>m\<bar>" by (simp only: of_int_1_le_iff)
  then have one: "(1::rat) \<le> \<bar>of_int m\<bar>" by simp
  have "\<lfloor>\<bar>of_int m :: rat\<bar>\<rfloor> = \<bar>m\<bar>"
    by (simp flip: of_int_abs)
  with one show ?thesis by (simp add: floor_log2_def)
qed

lemma round_scaled:
  assumes "x = of_int k * q" and "q \<noteq> 0"
  shows "of_int (round_half_even (x / q)) * q = x"
  using assms by (simp add: round_half_even_int)

lemma pow2_nonzero: "pow2 p \<noteq> 0"
  by (simp add: pow2_def)

lemma to_double_int:
  assumes "\<bar>m\<bar> \<le> 2 ^ 53"
  shows "to_double (of_int m) = Finite (of_int m)"
proof (cases "m = 0")
  case True
  then show ?thesis by (simp add: to_double_def)
next
  case False
  let ?L = "bitlength (nat \<bar>m\<bar>)"
  let ?q = "pow2 (max (floor_log2 \<bar>of_int m\<bar>) (- 1022) - 52)"
  from assms have "nat \<bar>m\<bar> < 2 ^ 54" by (simp add: nat_less_iff)
  then have up: "?L \<le> 54" by (rule bitlength_le)
  from False have "2 ^ 0 \<le> nat \<bar>m\<bar>" by simp
  then have low: "0 < ?L" by (rule bitlength_gt)
  have q: "?q = pow2 (int ?L - 53)"
    using False low by (simp add: floor_log2_int)
  have "\<exists>k. (of_int m :: rat) = of_int k * ?q"
  proof (cases "?L = 54")
    case True
    have "\<not> nat \<bar>m\<bar> < 2 ^ 53"
    proof
      assume "nat \<bar>m\<bar> < 2 ^ 53"
      then have "?L \<le> 53" by (rule bitlength_le)
      with True show False by simp
    qed
    with assms have "\<bar>m\<bar> = 2 ^ 53" by (simp add: nat_less_iff)
    then have "m = 2 ^ 53 \<or> m = - (2 ^ 53)" by linarith
    then have "m = 2 * (m div 2)" by auto
    then have "(of_int m :: rat) = of_int (m div 2) * 2"
      by (metis mult.commute of_int_mult of_int_numeral)
    with True q show ?thesis by (auto simp add: pow2_def)
  next
    case False
    with up have le: "?L \<le> 53" by simp
    have "(of_int m :: rat) = of_int (m * 2 ^ (53 - ?L)) * (1 / 2 ^ (53 - ?L))"
      by simp
    moreover from le low have "?q = 1 / 2 ^ (53 - ?L)"
    proof (cases "?L = 53")
      case True
      with q show ?thesis by (simp add: pow2_def)
    next
      case False
      with le have "?L < 53" by simp
      then have "nat (53 - int ?L) = 53 - ?L" by simp
      with q \<open>?L < 53\<close> show ?thesis by (simp add: pow2_def)
    qed
    ultimately show ?thesis by metis
  qed
  then obtain k where k: "(of_int m :: rat) = of_int k * ?q" ..
  have y: "of_int (round_half_even (of_int m / ?q)) * ?q = (of_int m :: rat)"
    using k pow2_nonzero by (rule round_scaled)
  have "\<bar>of_int m :: rat\<bar> = of_int \<bar>m\<bar>" by simp
  also from assms have "\<dots> \<le> of_int (2 ^ 53)" by (simp only: of_int_le_iff)
  also have "\<dots> < (2 :: rat) ^ 1024" by simp
  finally have small: "\<not> (2 :: rat) ^ 1024 \<le> \<bar>of_int m\<bar>" by simp
  from False y small show ?thesis
    by (simp add: to_double_def Let_def)
qed


lemma js_minus_one_int:
  assumes "\<bar>n - 1\<bar> \<le> 2 ^ 53"
  shows "js_minus (Finite (of_int n)) (Finite 1) = Finite (of_int (n - 1))"
proof -
  have "(of_int n :: rat) - 1 = of_int (n - 1)" by simp
  with assms show ?thesis by (simp only: js_minus.simps to_double_int)
qed

lemma js_rem_five_int:
  "js_rem (Finite (of_int a)) (Finite 5) = Finite (of_int (sgn a * (\<bar>a\<bar> mod 5)))"
proof -
  have "\<lfloor>(of_int \<bar>a\<bar> :: rat) / of_int 5\<rfloor> = \<bar>a\<bar> div 5"
    by (rule floor_divide_of_int_eq)
  then have f: "\<lfloor>\<bar>of_int a :: rat\<bar> / 5\<rfloor> = \<bar>a\<bar> div 5" by simp
  have "\<bar>a\<bar> - 5 * (\<bar>a\<bar> div 5) = \<bar>a\<bar> mod 5"
    by (simp add: minus_mult_div_eq_mod)
  then have "(of_int \<bar>a\<bar> :: rat) - 5 * of_int (\<bar>a\<bar> div 5) = of_int (\<bar>a\<bar> mod 5)"
    by (metis of_int_diff of_int_mult of_int_numeral)
  with f show ?thesis by (simp add: sgn_if)
qed

lemma js_index_int:
  "js_index xs (Finite (of_int i)) =
     (if 0 \<le> i \<and> i < int (length xs) then Some (xs ! nat i) else None)"
proof -
  have "((of_int i :: rat) < of_nat (length xs)) = (i < int (length xs))"
    by (metis of_int_less_iff of_int_of_nat_eq)
  then show ?thesis by (simp add: js_index_def)
qed

text \<open>
  Beyond the integers that a double holds exactly the subtraction rounds:
  \<open>2 ^ 53 + 2\<close> minus 1 is \<open>2 ^ 53\<close>, and \<open>- (2 ^ 53 + 2)\<close> minus 1 is \<open>- (2 ^ 53 + 4)\<close>.
\<close>

lemma bitlength_above_2_53:
  "bitlength 9007199254740993 = 54" "bitlength 9007199254740995 = 54"
proof -
  have "bitlength 9007199254740993 = Suc 53"
    by (rule bitlength_eq) simp_all
  then show "bitlength 9007199254740993 = 54" by simp
  have "bitlength 9007199254740995 = Suc 53"
    by (rule bitlength_eq) simp_all
  then show "bitlength 9007199254740995 = 54" by simp
qed

lemma floor_log2_above_2_53:
  "floor_log2 9007199254740993 = 53" "floor_log2 9007199254740995 = 53"
  by (simp_all add: floor_log2_def bitlength_above_2_53)

lemma pow2_1: "pow2 1 = 2"
  by (simp add: pow2_def)

lemma floor_half: "\<lfloor>(of_int a :: rat) / 2\<rfloor> = a div 2"
  using floor_divide_of_int_eq [of a 2, where ?'a = rat] by simp

lemma round_half_even_half:
  assumes "odd a"
  shows "round_half_even (of_int a / 2) = (if even (a div 2) then a div 2 else a div 2 + 1)"
proof -
  from assms have "a = 2 * (a div 2) + 1" by (simp add: odd_two_times_div_two_succ)
  then have "(of_int a :: rat) = 2 * of_int (a div 2) + 1"
    by (metis of_int_1 of_int_add of_int_mult of_int_numeral)
  then have "(of_int a :: rat) / 2 - of_int (a div 2) = 1 / 2" by (simp add: field_simps)
  then show ?thesis by (simp add: round_half_even_def floor_half)
qed

lemma round_half_even_ties:
  "round_half_even (9007199254740993 / 2) = 4503599627370496"
  "round_half_even (- (9007199254740995 / 2)) = - 4503599627370498"
proof -
  have "round_half_even (of_int 9007199254740993 / 2) = 4503599627370496"
    by (subst round_half_even_half) simp_all
  then show "round_half_even (9007199254740993 / 2) = 4503599627370496" by simp
  have "round_half_even (of_int (- 9007199254740995) / 2) = - 4503599627370498"
    by (subst round_half_even_half) simp_all
  then show "round_half_even (- (9007199254740995 / 2)) = - 4503599627370498" by simp
qed

lemma to_double_above_2_53:
  "to_double 9007199254740993 = Finite 9007199254740992"
  "to_double (- 9007199254740995) = Finite (- 9007199254740996)"
  by (simp_all add: to_double_def floor_log2_above_2_53 pow2_1 round_half_even_ties Let_def)

section \<open>Properties of the fallback question\<close>

lemma length_questions: "length questions = 5"
  by (simp add: questions_def)

lemma questions_0:
  "questions ! 0 = ''Tell me about a challenging project you've worked on recently.''"
  by (simp add: questions_def)

lemma questions_2_3: "questions ! 2 \<noteq> questions ! 3"
  by (simp add: questions_def numeral_2_eq_2 numeral_3_eq_3)

lemma rem5_nonneg: "0 \<le> a \<Longrightarrow> sgn a * (\<bar>a\<bar> mod 5) = a mod (5 :: int)"
  by (cases "a = 0") simp_all

lemma rem5_neg: "a < 0 \<Longrightarrow> sgn a * (\<bar>a\<bar> mod 5) = - ((- a) mod (5 :: int))"
  by simp

lemma rem5_neg_nonzero: "a < 0 \<Longrightarrow> a mod 5 \<noteq> 0 \<Longrightarrow> - ((- a) mod (5 :: int)) < 0"
  by presburger

lemma rem5_neg_zero: "a < 0 \<Longrightarrow> a mod 5 = 0 \<Longrightarrow> - ((- a) mod (5 :: int)) = 0"
  by presburger

lemma remainder_int:
  assumes "questionNumber context = Finite (of_int n)" and "\<bar>n - 1\<bar> \<le> 2 ^ 53"
  shows "js_rem (js_minus (questionNumber context) (Finite 1))
           (Finite (of_nat (length questions))) =
         Finite (of_int (sgn (n - 1) * (\<bar>n - 1\<bar> mod 5)))"
proof -
  from assms have m: "js_minus (questionNumber context) (Finite 1) = Finite (of_int (n - 1))"
    by (simp only: js_minus_one_int)
  have five: "Finite (of_nat (length questions)) = Finite 5"
    by (simp add: length_questions)
  show ?thesis by (simp only: m five js_rem_five_int)
qed

lemma getFallbackQuestion_int:
  assumes "questionNumber context = Finite (of_int n)" and "\<bar>n - 1\<bar> \<le> 2 ^ 53"
  shows "getFallbackQuestion context =
           js_index questions (Finite (of_int (sgn (n - 1) * (\<bar>n - 1\<bar> mod 5))))"
  unfolding getFallbackQuestion_def by (simp only: remainder_int [OF assms])

lemma getFallbackQuestion_pos:
  assumes "questionNumber context = Finite (of_int n)" and "1 \<le> n" and "n \<le> 2 ^ 53 - 1"
  shows "getFallbackQuestion context = Some (questions ! nat ((n - 1) mod 5))"
proof -
  from assms have "\<bar>n - 1\<bar> \<le> 2 ^ 53" by simp
  with assms(1) have g: "getFallbackQuestion context =
      js_index questions (Finite (of_int (sgn (n - 1) * (\<bar>n - 1\<bar> mod 5))))"
    by (rule getFallbackQuestion_int)
  from assms(2) have "0 \<le> n - 1" by simp
  then have r: "sgn (n - 1) * (\<bar>n - 1\<bar> mod 5) = (n - 1) mod 5"
    by (rule rem5_nonneg)
  show ?thesis
    by (simp only: g r js_index_int) (simp add: length_questions)
qed

lemma getFallbackQuestion_cong:
  "questionNumber c1 = questionNumber c2 \<Longrightarrow> getFallbackQuestion c1 = getFallbackQuestion c2"
  by (simp add: getFallbackQuestion_def)

lemma getFallbackQuestion_one:
  assumes "questionNumber context = Finite 1"
  shows "getFallbackQuestion context = Some (questions ! 0)"
proof -
  from assms have "questionNumber context = Finite (of_int 1)" by simp
  then have "getFallbackQuestion context = Some (questions ! nat ((1 - 1) mod 5))"
    by (rule getFallbackQuestion_pos) simp_all
  then show ?thesis by simp
qed

lemma getFallbackQuestion_six:
  assumes "questionNumber context = Finite 6"
  shows "getFallbackQuestion context = Some (questions ! 0)"
proof -
  from assms have "questionNumber context = Finite (of_int 6)" by simp
  then have "getFallbackQuestion context = Some (questions ! nat ((6 - 1) mod 5))"
    by (rule getFallbackQuestion_pos) simp_all
  then show ?thesis by simp
qed

text \<open>
  Claim C6, as stated, fails at \<open>questionNumber = 9007199254740994\<close> (\<open>2 ^ 53 + 2\<close>, a
  number the request can carry): \<open>questionNumber - 1\<close> rounds to \<open>2 ^ 53\<close>, whose remainder
  by 5 is 2, and the third canned question is selected, where
  \<open>(questionNumber - 1) mod 5\<close> is 3, the index of the fourth.
\<close>

theorem fallback_question_beyond_safe_integers:
  "questionNumber (context_q 9007199254740994) = Finite 9007199254740994
   \<and> getFallbackQuestion (context_q 9007199254740994) = Some (questions ! 2)
   \<and> nat ((9007199254740994 - 1) mod int (length questions)) = 3
   \<and> questions ! 2 \<noteq> questions ! 3"
proof (intro conjI)
  show "questionNumber (context_q 9007199254740994) = Finite 9007199254740994"
    by (simp add: context_q_def)
  have m: "js_minus (Finite 9007199254740994) (Finite 1) = Finite 9007199254740992"
    using to_double_above_2_53(1) by simp
  have r: "js_rem (Finite 9007199254740992) (Finite 5) = Finite 2"
    using js_rem_five_int [of 9007199254740992] by simp
  have i: "js_index questions (Finite 2) = Some (questions ! 2)"
    using js_index_int [of questions 2] by (simp add: length_questions)
  have "getFallbackQuestion (context_q 9007199254740994) =
      js_index questions (js_rem (js_minus (Finite 9007199254740994) (Finite 1)) (Finite 5))"
    by (simp add: getFallbackQuestion_def context_q_def length_questions
          del: js_minus.simps js_rem.simps)
  then show "getFallbackQuestion (context_q 9007199254740994) = Some (questions ! 2)"
    by (simp only: m r i)
  show "nat ((9007199254740994 - 1) mod int (length questions)) = 3"
    by (simp add: length_questions)
  show "questions ! 2 \<noteq> questions ! 3"
    by (rule questions_2_3)
qed

text \<open>
  Claim C6, amended. The fallback question depends on nothing but \<open>questionNumber\<close>: two
  contexts with the same \<open>questionNumber\<close> get the same question. For an integral
  \<open>questionNumber\<close> from 1 (the numbering is 1-indexed) to \<open>2 ^ 53 - 1\<close>, the greatest integer
  up to which a number holds every integer exactly, it is the entry
  \<open>(questionNumber - 1) mod 5\<close> of the five canned questions, an index inside the list.
  \<open>questionNumber = 1\<close> selects the first canned question and \<open>questionNumber = 6\<close> selects the
  same one, whatever the rest of the two contexts.
\<close>

theorem fallback_question_pure_modulo:
  "(questionNumber c1 = questionNumber c2 \<longrightarrow> getFallbackQuestion c1 = getFallbackQuestion c2)
   \<and> (questionNumber c1 = Finite (of_int n) \<and> 1 \<le> n \<and> n \<le> 2 ^ 53 - 1 \<longrightarrow>
        (n - 1) mod int (length questions) < int (length questions) \<and>
        getFallbackQuestion c1 = Some (questions ! nat ((n - 1) mod int (length questions))))
   \<and> length questions = 5
   \<and> getFallbackQuestion (c1\<lparr>questionNumber := Finite 1\<rparr>) = Some (questions ! 0)
   \<and> getFallbackQuestion (c2\<lparr>questionNumber := Finite 6\<rparr>) =
       getFallbackQuestion (c1\<lparr>questionNumber := Finite 1\<rparr>)"
proof (intro conjI impI)
  assume "questionNumber c1 = questionNumber c2"
  then show "getFallbackQuestion c1 = getFallbackQuestion c2"
    by (rule getFallbackQuestion_cong)
next
  assume "questionNumber c1 = Finite (of_int n) \<and> 1 \<le> n \<and> n \<le> 2 ^ 53 - 1"
  then show "getFallbackQuestion c1 =
    Some (questions ! nat ((n - 1) mod int (length questions)))"
    by (simp add: getFallbackQuestion_pos length_questions)
next
  show "(n - 1) mod int (length questions) < int (length questions)"
    by (simp add: length_questions)
next
  show "length questions = 5"
    by (rule length_questions)
next
  show "getFallbackQuestion (c1\<lparr>questionNumber := Finite 1\<rparr>) = Some (questions ! 0)"
    by (simp add: getFallbackQuestion_one)
next
  show "getFallbackQuestion (c2\<lparr>questionNumber := Finite 6\<rparr>) =
        getFallbackQuestion (c1\<lparr>questionNumber := Finite 1\<rparr>)"
    by (simp add: getFallbackQuestion_one getFallbackQuestion_six)
qed

theorem fallback_question_pure_modulo_witness:
  "questionNumber (context_q 7) = questionNumber (context_q' 7)
   \<and> questionNumber (context_q 7) = Finite (of_int 7)
   \<and> (1 :: int) \<le> 7 \<and> (7 :: int) \<le> 2 ^ 53 - 1
   \<and> getFallbackQuestion (context_q 7) = getFallbackQuestion (context_q' 7)
   \<and> getFallbackQuestion (context_q 7) = Some (questions ! 1)"
proof -
  have h1: "questionNumber (context_q 7) = questionNumber (context_q' 7)"
    by (simp add: context_q_def context_q'_def)
  have h2: "questionNumber (context_q 7) = Finite (of_int 7) \<and> (1 :: int) \<le> 7
            \<and> (7 :: int) \<le> 2 ^ 53 - 1"
    by (simp add: context_q_def)
  have h3: "nat ((7 - 1) mod int (length questions)) = 1"
    by (simp add: length_questions)
  from fallback_question_pure_modulo [of "context_q 7" "context_q' 7"] h1
  have a: "getFallbackQuestion (context_q 7) = getFallbackQuestion (context_q' 7)"
    by blast
  from fallback_question_pure_modulo [of "context_q 7" _ 7] h2
  have "getFallbackQuestion (context_q 7) =
          Some (questions ! nat ((7 - 1) mod int (length questions)))"
    by blast
  with h3 have b: "getFallbackQuestion (context_q 7) = Some (questions ! 1)"
    by simp
  from h1 h2 a b show ?thesis by simp
qed

text \<open>
  Outside the integers from \<open>- (2 ^ 53 - 1)\<close> to \<open>2 ^ 53 - 1\<close> the lookup follows the
  rounding: a question number that is not integral, such as 3/2, selects nothing, and
  \<open>- (2 ^ 53 + 2)\<close>, one less than a multiple of 5, selects nothing either, because
  \<open>questionNumber - 1\<close> rounds to \<open>- (2 ^ 53 + 4)\<close>, whose remainder is \<open>-1\<close>.
\<close>

lemma fallback_question_three_halves: "getFallbackQuestion context_three_halves = None"
proof -
  have "bitlength 1 = Suc 0"
    by (rule bitlength_eq) simp_all
  then have "floor_log2 (1 / 2) = - 1"
    by (simp add: floor_log2_def)
  then have e: "max (floor_log2 \<bar>1 / 2\<bar>) (- 1022) - 52 = - 53"
    by simp
  have p: "pow2 (- 53) = 1 / 9007199254740992"
    by (simp add: pow2_def)
  have "round_half_even (of_int 4503599627370496) = 4503599627370496"
    by (rule round_half_even_int)
  then have k: "round_half_even ((1 / 2) / (1 / 9007199254740992)) = 4503599627370496"
    by simp
  have "to_double (1 / 2) = Finite (1 / 2)"
    unfolding to_double_def Let_def e p k by simp
  then have m: "js_minus (Finite (3 / 2)) (Finite 1) = Finite (1 / 2)"
    by simp
  have "\<lfloor>(1 :: rat) / 10\<rfloor> = 0"
    by (rule floor_unique) simp_all
  then have r: "js_rem (Finite (1 / 2)) (Finite 5) = Finite (1 / 2)"
    by simp
  have "\<lfloor>(1 :: rat) / 2\<rfloor> = 0"
    by (rule floor_unique) simp_all
  then have i: "js_index questions (Finite (1 / 2)) = None"
    by (simp add: js_index_def)
  have "getFallbackQuestion context_three_halves =
      js_index questions (js_rem (js_minus (Finite (3 / 2)) (Finite 1)) (Finite 5))"
    by (simp add: getFallbackQuestion_def context_three_halves_def length_questions
          del: js_minus.simps js_rem.simps)
  then show ?thesis
    by (simp only: m r i)
qed

lemma fallback_question_below_safe_integers:
  "getFallbackQuestion (context_q (- 9007199254740994)) = None"
proof -
  have m: "js_minus (Finite (- 9007199254740994)) (Finite 1) = Finite (- 9007199254740996)"
    using to_double_above_2_53(2) by simp
  have r: "js_rem (Finite (- 9007199254740996)) (Finite 5) = Finite (- 1)"
    using js_rem_five_int [of "- 9007199254740996"] by simp
  have i: "js_index questions (Finite (- 1)) = None"
    using js_index_int [of questions "- 1"] by simp
  have "getFallbackQuestion (context_q (- 9007199254740994)) =
      js_index questions
        (js_rem (js_minus (Finite (- 9007199254740994)) (Finite 1)) (Finite 5))"
    by (simp add: getFallbackQuestion_def context_q_def length_questions
          del: js_minus.simps js_rem.simps)
  then show ?thesis
    by (simp only: m r i)
qed

text \<open>
  Claim C9, as stated, fails at \<open>questionNumber = -4\<close>: the remainder of \<open>-5\<close> by 5 is zero, not
  negative, the index is inside the list and the first canned question is returned.
\<close>

theorem fallback_question_minus_four_defined:
  "questionNumber (context_q (- 4)) = Finite (- 4)
   \<and> js_rem (js_minus (questionNumber (context_q (- 4))) (Finite 1))
        (Finite (of_nat (length questions))) = Finite 0
   \<and> getFallbackQuestion (context_q (- 4)) =
       Some ''Tell me about a challenging project you've worked on recently.''"
proof -
  have q: "questionNumber (context_q (- 4)) = Finite (of_int (- 4))"
    by (simp add: context_q_def)
  have b: "\<bar>(- 4 :: int) - 1\<bar> \<le> 2 ^ 53" by simp
  have i: "js_index questions (Finite 0) = Some (questions ! 0)"
    using js_index_int [of questions 0] by (simp add: length_questions)
  from remainder_int [OF q b]
  have r: "js_rem (js_minus (questionNumber (context_q (- 4))) (Finite 1))
        (Finite (of_nat (length questions))) = Finite 0"
    by simp
  then have "getFallbackQuestion (context_q (- 4)) = Some (questions ! 0)"
    by (simp add: getFallbackQuestion_def i)
  with r show ?thesis
    by (simp add: questions_0 context_q_def)
qed

text \<open>
  Claim C9, amended. For an integral \<open>questionNumber\<close> from \<open>- (2 ^ 53 - 1)\<close> to
  \<open>2 ^ 53 - 1\<close>, the integers that a number holds exactly: the lookup yields a question
  whenever \<open>questionNumber\<close> is at least 1. When \<open>questionNumber\<close> is 0 or less, the remainder
  \<open>(questionNumber - 1) % 5\<close> is negative and no question is produced (the result is
  \<open>undefined\<close>), except where \<open>questionNumber - 1\<close> is a multiple of 5 (\<open>-4\<close>, \<open>-9\<close>, ...): there
  the remainder is zero and the first canned question is returned.
\<close>

theorem fallback_question_defined_cases:
  "(questionNumber c = Finite (of_int n) \<and> 1 \<le> n \<and> n \<le> 2 ^ 53 - 1 \<longrightarrow>
        getFallbackQuestion c \<noteq> None)
   \<and> (questionNumber c = Finite (of_int n) \<and> - (2 ^ 53 - 1) \<le> n \<and> n \<le> 0 \<and>
       (n - 1) mod 5 \<noteq> 0 \<longrightarrow>
        js_rem (js_minus (questionNumber c) (Finite 1)) (Finite (of_nat (length questions))) =
          Finite (of_int (- ((1 - n) mod 5))) \<and>
        - ((1 - n) mod 5) < 0 \<and>
        getFallbackQuestion c = None)
   \<and> (questionNumber c = Finite (of_int n) \<and> - (2 ^ 53 - 1) \<le> n \<and> n \<le> 0 \<and>
       (n - 1) mod 5 = 0 \<longrightarrow>
        js_rem (js_minus (questionNumber c) (Finite 1)) (Finite (of_nat (length questions))) =
          Finite 0 \<and>
        getFallbackQuestion c = Some (questions ! 0))"
proof (intro conjI impI)
  assume "questionNumber c = Finite (of_int n) \<and> 1 \<le> n \<and> n \<le> 2 ^ 53 - 1"
  then show "getFallbackQuestion c \<noteq> None"
    by (simp add: getFallbackQuestion_pos)
next
  assume h: "questionNumber c = Finite (of_int n) \<and> - (2 ^ 53 - 1) \<le> n \<and> n \<le> 0 \<and>
       (n - 1) mod 5 \<noteq> 0"
  then have q: "questionNumber c = Finite (of_int n)" and b: "\<bar>n - 1\<bar> \<le> 2 ^ 53"
    by simp_all
  from h have neg: "n - 1 < 0" and nz: "(n - 1) mod 5 \<noteq> 0" by simp_all
  from neg have r: "sgn (n - 1) * (\<bar>n - 1\<bar> mod 5) = - ((1 - n) mod 5)"
    by (simp add: rem5_neg)
  from neg nz have "- ((- (n - 1)) mod 5) < 0" by (rule rem5_neg_nonzero)
  then show lt: "- ((1 - n) mod 5) < 0" by simp
  from remainder_int [OF q b]
  show "js_rem (js_minus (questionNumber c) (Finite 1)) (Finite (of_nat (length questions))) =
          Finite (of_int (- ((1 - n) mod 5)))"
    by (simp only: r)
  from getFallbackQuestion_int [OF q b]
  have "getFallbackQuestion c = js_index questions (Finite (of_int (- ((1 - n) mod 5))))"
    by (simp only: r)
  with lt show "getFallbackQuestion c = None"
    by (simp only: js_index_int) simp
next
  assume h: "questionNumber c = Finite (of_int n) \<and> - (2 ^ 53 - 1) \<le> n \<and> n \<le> 0 \<and>
       (n - 1) mod 5 = 0"
  then have q: "questionNumber c = Finite (of_int n)" and b: "\<bar>n - 1\<bar> \<le> 2 ^ 53"
    by simp_all
  from h have neg: "n - 1 < 0" and z: "(n - 1) mod 5 = 0" by simp_all
  from neg z have "- ((- (n - 1)) mod 5) = 0" by (rule rem5_neg_zero)
  with neg have r: "sgn (n - 1) * (\<bar>n - 1\<bar> mod 5) = 0"
    by (simp add: rem5_neg)
  from remainder_int [OF q b]
  have "js_rem (js_minus (questionNumber c) (Finite 1)) (Finite (of_nat (length questions))) =
          Finite (of_int 0)"
    by (simp only: r)
  then show "js_rem (js_minus (questionNumber c) (Finite 1))
      (Finite (of_nat (length questions))) = Finite 0"
    by simp
  from getFallbackQuestion_int [OF q b]
  have "getFallbackQuestion c = js_index questions (Finite (of_int 0))"
    by (simp only: r)
  then show "getFallbackQuestion c = Some (questions ! 0)"
    by (simp only: js_index_int) (simp add: length_questions)
qed

theorem fallback_question_defined_cases_witness:
  "questionNumber (context_q 3) = Finite (of_int 3) \<and> getFallbackQuestion (context_q 3) \<noteq> None
   \<and> questionNumber (context_q 0) = Finite (of_int 0) \<and> ((0 :: int) - 1) mod 5 \<noteq> 0
   \<and> getFallbackQuestion (context_q 0) = None
   \<and> questionNumber (context_q (- 9)) = Finite (of_int (- 9)) \<and> ((- 9 :: int) - 1) mod 5 = 0
   \<and> getFallbackQuestion (context_q (- 9)) = Some (questions ! 0)"
proof -
  have h1: "questionNumber (context_q 3) = Finite (of_int 3) \<and> (1 :: int) \<le> 3
            \<and> (3 :: int) \<le> 2 ^ 53 - 1"
    by (simp add: context_q_def)
  have h2: "questionNumber (context_q 0) = Finite (of_int 0) \<and> - (2 ^ 53 - 1) \<le> (0 :: int)
            \<and> (0 :: int) \<le> 0 \<and> ((0 :: int) - 1) mod 5 \<noteq> 0"
    by (simp add: context_q_def)
  have h3: "questionNumber (context_q (- 9)) = Finite (of_int (- 9))
            \<and> - (2 ^ 53 - 1) \<le> (- 9 :: int) \<and> (- 9 :: int) \<le> 0
            \<and> ((- 9 :: int) - 1) mod 5 = 0"
    by (simp add: context_q_def)
  from fallback_question_defined_cases [of "context_q 3" 3] h1
  have a: "getFallbackQuestion (context_q 3) \<noteq> None" by blast
  from fallback_question_defined_cases [of "context_q 0" 0] h2
  have b: "getFallbackQuestion (context_q 0) = None" by blast
  from fallback_question_defined_cases [of "context_q (- 9)" "- 9"] h3
  have c: "getFallbackQuestion (context_q (- 9)) = Some (questions ! 0)" by blast
  from h1 h2 h3 a b c show ?thesis by simp
qed

section \<open>Properties of the candidate loop\<close>




lemma tryModels_None:
  "selectAdapter cfg net context m = None \<Longrightarrow>
   tryModels cfg net now context (m # ms) d = tryModels cfg net now context ms d"
  by simp

lemma tryModels_Returns:
  "selectAdapter cfg net context m = Some (u, Returns q) \<Longrightarrow>
   tryModels cfg net now context (m # ms) d = (d, q, u, [(codename m, Returns q)])"
  by simp

lemma tryModels_Throws:
  "selectAdapter cfg net context m = Some (u, Throws) \<Longrightarrow>
   tryModels cfg net now context (m # ms) d =
     (fst (tryModels cfg net now context ms (markModelUnavailable now (codename m) d)),
      fst (snd (tryModels cfg net now context ms (markModelUnavailable now (codename m) d))),
      fst (snd (snd (tryModels cfg net now context ms (markModelUnavailable now (codename m) d)))),
      (codename m, Throws) #
        snd (snd (snd (tryModels cfg net now context ms (markModelUnavailable now (codename m) d)))))"
  by (simp split: prod.split)




lemma tryModels_no_question:
  "\<forall>m \<in> set ms. \<forall>u q. selectAdapter cfg net context m = Some (u, Returns q) \<longrightarrow> q = [] \<Longrightarrow>
   fst (snd (tryModels cfg net now context ms d)) = []"
proof (induction ms arbitrary: d)
  case Nil
  then show ?case by simp
next
  case (Cons m ms)
  show ?case
  proof (cases "selectAdapter cfg net context m")
    case None
    with Cons show ?thesis by (simp add: tryModels_None del: tryModels.simps)
  next
    case (Some p)
    obtain u r where p: "p = (u, r)" by (cases p)
    show ?thesis
    proof (cases r)
      case Throws
      from Cons.prems have "fst (snd (tryModels cfg net now context ms
          (markModelUnavailable now (codename m) d))) = []"
        by (intro Cons.IH) simp
      with Some p Throws show ?thesis by (simp add: tryModels_Throws del: tryModels.simps)
    next
      case (Returns q)
      with Some p Cons.prems have "q = []" by simp
      with Some p Returns show ?thesis by (simp add: tryModels_Returns del: tryModels.simps)
    qed
  qed
qed


lemma available_nova_first:
  "getAvailableModels [''Orion'', ''Titan'', ''Nova''] store_nova_first =
     [provider ''Nova'' True, provider ''Orion'' True, provider ''Titan'' True]"
  by (simp add: getAvailableModels_def store_nova_first_def store_of_def provider_def)

lemma available_orion_first:
  "getAvailableModels [''Orion'', ''Titan'', ''Nova''] store_orion_first =
     [provider ''Orion'' True, provider ''Titan'' True, provider ''Nova'' True]"
  by (simp add: getAvailableModels_def store_orion_first_def store_of_def provider_def)

lemma select_nova_all_answer:
  "selectAdapter all_keys all_answer context (provider ''Nova'' s) = Some (''Nova'', Returns ''Q-nova'')"
  by (simp add: selectAdapter_def provider_def all_answer_def answers_def)

lemma select_orion_all_answer:
  "selectAdapter all_keys all_answer context (provider ''Orion'' s) = Some (''Orion'', Returns ''Q-orion'')"
  by (simp add: selectAdapter_def provider_def all_answer_def answers_def all_keys_def truthy_def)

lemma codename_provider: "codename (provider c s) = c"
  by (simp add: provider_def)

lemma none_available:
  "\<forall>m \<in> set (ai_models d). codename m \<in> {''Orion'', ''Titan'', ''Nova''} \<longrightarrow> \<not> credit_status m
   \<Longrightarrow> getAvailableModels [''Orion'', ''Titan'', ''Nova''] d = []"
  unfolding getAvailableModels_def by (simp add: filter_empty_conv) blast

lemma generate_unavailable:
  "getAvailableModels [''Orion'', ''Titan'', ''Nova''] d = [] \<Longrightarrow>
   generateInterviewQuestion cfg net rpc now context d =
     (d, \<lparr>status = 503,
          body = ErrorBody ''No AI models available'' [''Orion'', ''Titan'', ''Nova'']\<rparr>)"
  by (simp add: generateInterviewQuestion_def)

lemma generate_after_loop:
  "getAvailableModels [''Orion'', ''Titan'', ''Nova''] d \<noteq> [] \<Longrightarrow>
   tryModels cfg net now context (getAvailableModels [''Orion'', ''Titan'', ''Nova''] d) d =
     (d1, q, u, calls) \<Longrightarrow>
   status (snd (generateInterviewQuestion cfg net rpc now context d)) = 200 \<and>
   usedModel (body (snd (generateInterviewQuestion cfg net rpc now context d))) =
     (if q = [] then ''Fallback'' else u) \<and>
   question (body (snd (generateInterviewQuestion cfg net rpc now context d))) =
     (if q = [] then getFallbackQuestion context else Some q)"
  by (simp add: generateInterviewQuestion_def Let_def del: tryModels.simps)

lemma first_question:
  "questionNumber context = Finite 1 \<Longrightarrow> getFallbackQuestion context = Some (questions ! 0)"
  by (rule getFallbackQuestion_one)

lemma available_orion_nova:
  "getAvailableModels [''Orion'', ''Titan'', ''Nova''] store_orion_nova =
     [provider ''Orion'' True, provider ''Nova'' True]"
  by (simp add: getAvailableModels_def store_orion_nova_def store_of_def provider_def)

lemma select_no_keys_all_throw:
  "selectAdapter no_keys all_throw context m \<noteq> Some (u, Returns q)"
  by (simp add: selectAdapter_def no_keys_def all_throw_def answers_def truthy_def)





section \<open>Properties of the store after a request\<close>





















lemma speech_all_fail:
  "getAvailableModels [''Vox'', ''Aether''] d \<noteq> [] \<Longrightarrow>
   fst (snd (trySpeech cfg net rpc now context (getAvailableModels [''Vox'', ''Aether''] d) d)) = None
   \<Longrightarrow> snd (generateSpeech cfg net rpc now context d) =
       \<lparr>status = 200, body = BrowserTTSBody ''All TTS models failed'' True\<rparr>"
  by (cases "trySpeech cfg net rpc now context (getAvailableModels [''Vox'', ''Aether''] d) d")
     (simp add: generateSpeech_def Let_def del: trySpeech.simps)




lemma athena_available: "isModelAvailable ''Athena'' (store_athena s) = s"
  by (simp add: isModelAvailable_def store_athena_def store_of_def provider_def)






section \<open>Order of the attempts\<close>

text \<open>
  Claim C1. The loop walks \<open>availableModels\<close>, the rows in the order in which the store returned
  them, and not the priority list \<open>[Orion, Titan, Nova]\<close>. With the same three eligible rows and
  every adapter answering, a store that returns Orion first leads to one call, of Orion; a store
  that returns Nova first leads to one call, of Nova, and the response names Nova as
  \<open>usedModel\<close>, although Orion is eligible, configured and would have answered.
\<close>

theorem attempt_order_follows_store_order:
  "set (ai_models store_nova_first) = set (ai_models store_orion_first)
   \<and> attemptedProviders all_keys all_answer (january 10) (context_q 1) store_orion_first = [''Orion'']
   \<and> attemptedProviders all_keys all_answer (january 10) (context_q 1) store_nova_first = [''Nova'']
   \<and> usedModel (body (snd (generateInterviewQuestion all_keys all_answer add_requests (january 10)
         (context_q 1) store_nova_first))) = ''Nova''"
proof (intro conjI)
  show "set (ai_models store_nova_first) = set (ai_models store_orion_first)"
    by (auto simp add: store_nova_first_def store_orion_first_def store_of_def)
  show "attemptedProviders all_keys all_answer (january 10) (context_q 1) store_orion_first = [''Orion'']"
    by (simp add: attemptedProviders_def available_orion_first tryModels_Returns
          select_orion_all_answer codename_provider del: tryModels.simps)
  show "attemptedProviders all_keys all_answer (january 10) (context_q 1) store_nova_first = [''Nova'']"
    by (simp add: attemptedProviders_def available_nova_first tryModels_Returns
          select_nova_all_answer codename_provider del: tryModels.simps)
  show "usedModel (body (snd (generateInterviewQuestion all_keys all_answer add_requests (january 10)
         (context_q 1) store_nova_first))) = ''Nova''"
    by (simp add: generateInterviewQuestion_def available_nova_first tryModels_Returns
          select_nova_all_answer Let_def del: tryModels.simps)
qed


section \<open>No provider eligible, or none answering\<close>

text \<open>
  Claim C2, as stated, fails: with Orion, Titan and Nova all at \<open>creditStatus = false\<close> and
  \<open>questionNumber = 1\<close> the request is answered with status 503 and the error
  \<open>No AI models available\<close>, not with the fallback question.
\<close>

theorem all_providers_off_gives_503:
  "generateInterviewQuestion all_keys all_answer add_requests (january 10) (context_q 1)
     store_all_false =
   (store_all_false,
    \<lparr>status = 503,
     body = ErrorBody ''No AI models available'' [''Orion'', ''Titan'', ''Nova'']\<rparr>)"
proof -
  have "getAvailableModels [''Orion'', ''Titan'', ''Nova''] store_all_false = []"
    by (simp add: getAvailableModels_def store_all_false_def store_of_def provider_def)
  then show ?thesis by (rule generate_unavailable)
qed


text \<open>
  Claim C2, amended. When Orion, Titan and Nova all have \<open>creditStatus = false\<close>, the request
  returns status 503 with the error \<open>No AI models available\<close> naming the three, and leaves the
  store as it was. \<open>usedModel = Fallback\<close> with the first canned question for
  \<open>questionNumber = 1\<close> is what the request returns when at least one of the three is eligible
  and no eligible provider's adapter returns a non-empty question (each is passed over, throws,
  or returns nothing).
\<close>

theorem generate_question_unavailable_or_fallback:
  "((\<forall>m \<in> set (ai_models d).
        codename m \<in> {''Orion'', ''Titan'', ''Nova''} \<longrightarrow> \<not> credit_status m) \<longrightarrow>
      generateInterviewQuestion cfg net rpc now context d =
        (d, \<lparr>status = 503,
             body = ErrorBody ''No AI models available'' [''Orion'', ''Titan'', ''Nova'']\<rparr>))
   \<and> (getAvailableModels [''Orion'', ''Titan'', ''Nova''] d \<noteq> [] \<and>
       (\<forall>m \<in> set (getAvailableModels [''Orion'', ''Titan'', ''Nova''] d).
          \<forall>u q. selectAdapter cfg net context m = Some (u, Returns q) \<longrightarrow> q = []) \<and>
       questionNumber context = Finite 1 \<longrightarrow>
      status (snd (generateInterviewQuestion cfg net rpc now context d)) = 200 \<and>
      usedModel (body (snd (generateInterviewQuestion cfg net rpc now context d))) = ''Fallback'' \<and>
      question (body (snd (generateInterviewQuestion cfg net rpc now context d))) =
        Some (questions ! 0))"
proof (intro conjI impI)
  assume "\<forall>m \<in> set (ai_models d).
        codename m \<in> {''Orion'', ''Titan'', ''Nova''} \<longrightarrow> \<not> credit_status m"
  then have "getAvailableModels [''Orion'', ''Titan'', ''Nova''] d = []"
    by (rule none_available)
  then show "generateInterviewQuestion cfg net rpc now context d =
        (d, \<lparr>status = 503,
             body = ErrorBody ''No AI models available'' [''Orion'', ''Titan'', ''Nova'']\<rparr>)"
    by (rule generate_unavailable)
next
  let ?av = "getAvailableModels [''Orion'', ''Titan'', ''Nova''] d"
  let ?r = "generateInterviewQuestion cfg net rpc now context d"
  assume h: "?av \<noteq> [] \<and>
       (\<forall>m \<in> set ?av. \<forall>u q. selectAdapter cfg net context m = Some (u, Returns q) \<longrightarrow> q = []) \<and>
       questionNumber context = Finite 1"
  obtain d1 q u calls where t: "tryModels cfg net now context ?av d = (d1, q, u, calls)"
    by (cases "tryModels cfg net now context ?av d") auto
  from h have "fst (snd (tryModels cfg net now context ?av d)) = []"
    by (intro tryModels_no_question) simp
  with t have q: "q = []" by simp
  from h have ne: "?av \<noteq> []" by simp
  from generate_after_loop [OF ne t, of rpc] q h
  show "status (snd ?r) = 200" and "usedModel (body (snd ?r)) = ''Fallback''"
    and "question (body (snd ?r)) = Some (questions ! 0)"
    by (simp_all add: first_question)
qed


theorem generate_question_unavailable_or_fallback_witness:
  "map credit_status (ai_models store_all_false) = [False, False, False]
   \<and> generateInterviewQuestion all_keys all_answer add_requests (january 10) (context_q 1)
        store_all_false =
       (store_all_false,
        \<lparr>status = 503,
         body = ErrorBody ''No AI models available'' [''Orion'', ''Titan'', ''Nova'']\<rparr>)
   \<and> getAvailableModels [''Orion'', ''Titan'', ''Nova''] store_orion_nova =
       [provider ''Orion'' True, provider ''Nova'' True]
   \<and> selectAdapter no_keys all_throw (context_q 1) (provider ''Orion'' True) = None
   \<and> selectAdapter no_keys all_throw (context_q 1) (provider ''Nova'' True) =
       Some (''Nova'', Throws)
   \<and> questionNumber (context_q 1) = Finite 1
   \<and> status (snd (generateInterviewQuestion no_keys all_throw add_requests (january 10)
         (context_q 1) store_orion_nova)) = 200
   \<and> usedModel (body (snd (generateInterviewQuestion no_keys all_throw add_requests (january 10)
         (context_q 1) store_orion_nova))) = ''Fallback''
   \<and> question (body (snd (generateInterviewQuestion no_keys all_throw add_requests (january 10)
         (context_q 1) store_orion_nova))) = Some (questions ! 0)"
proof -
  have h1: "\<forall>m \<in> set (ai_models store_all_false).
       codename m \<in> {''Orion'', ''Titan'', ''Nova''} \<longrightarrow> \<not> credit_status m"
    by (simp add: store_all_false_def store_of_def provider_def)
  have h2: "getAvailableModels [''Orion'', ''Titan'', ''Nova''] store_orion_nova \<noteq> []"
    by (simp add: available_orion_nova)
  have h3: "\<forall>m \<in> set (getAvailableModels [''Orion'', ''Titan'', ''Nova''] store_orion_nova).
         \<forall>u q. selectAdapter no_keys all_throw (context_q 1) m = Some (u, Returns q) \<longrightarrow> q = []"
    by (simp add: select_no_keys_all_throw)
  have h4: "questionNumber (context_q 1) = Finite 1"
    by (simp add: context_q_def)
  have e1: "map credit_status (ai_models store_all_false) = [False, False, False]"
    by (simp add: store_all_false_def store_of_def provider_def)
  have e2: "selectAdapter no_keys all_throw (context_q 1) (provider ''Orion'' True) = None"
    by (simp add: selectAdapter_def no_keys_def provider_def truthy_def)
  have e3: "selectAdapter no_keys all_throw (context_q 1) (provider ''Nova'' True) =
       Some (''Nova'', Throws)"
    by (simp add: selectAdapter_def no_keys_def provider_def truthy_def all_throw_def answers_def)
  note a = generate_question_unavailable_or_fallback
      [of store_all_false all_keys all_answer add_requests "january 10" "context_q 1",
       THEN conjunct1, THEN mp, OF h1]
  note b = generate_question_unavailable_or_fallback
      [of store_orion_nova no_keys all_throw add_requests "january 10" "context_q 1",
       THEN conjunct2, THEN mp, OF conjI [OF h2 conjI [OF h3 h4]]]
  from e1 a available_orion_nova e2 e3 h4 b show ?thesis
    by (intro conjI) simp_all
qed

section \<open>The single-strike breaker\<close>







section \<open>Evaluation never fails\<close>

text \<open>
  Claim C7. \<open>evaluate_response\<close> answers with status 200 in every case. When Athena is not
  available, or the Anthropic credential is missing, or the call to Athena throws, the response
  is the static fallback evaluation with the scores clarity 7, confidence 7, content 7, tone 7.
\<close>

theorem evaluate_response_never_errors:
  "status (snd (evaluateResponse cfg net update_model_usage now context d)) = 200
   \<and> (\<not> isModelAvailable ''Athena'' d \<or> \<not> truthy (ANTHROPIC_API_KEY cfg) \<or>
       evaluateWithAthena net (or_empty (userResponse context)) context = Throws
       \<longrightarrow> snd (evaluateResponse cfg net update_model_usage now context d) =
             \<lparr>status = 200,
              body = EvaluationBody ''Response received and noted. Continue with the interview.''
                       ''Fallback''
                       (Some \<lparr>clarity = 7, confidence = 7, content = 7, tone = 7\<rparr>)\<rparr>)"
  by (simp add: evaluateResponse_def getFallbackEvaluation_def Let_def split: outcome.split)


theorem evaluate_response_never_errors_witness:
  "\<not> isModelAvailable ''Athena'' (store_athena False)
   \<and> snd (evaluateResponse all_keys all_answer add_requests (january 10) (context_q' 2)
        (store_athena False)) =
       \<lparr>status = 200,
        body = EvaluationBody ''Response received and noted. Continue with the interview.''
                 ''Fallback'' (Some \<lparr>clarity = 7, confidence = 7, content = 7, tone = 7\<rparr>)\<rparr>
   \<and> \<not> truthy (ANTHROPIC_API_KEY no_keys)
   \<and> snd (evaluateResponse no_keys all_answer add_requests (january 10) (context_q' 2)
        (store_athena True)) =
       \<lparr>status = 200,
        body = EvaluationBody ''Response received and noted. Continue with the interview.''
                 ''Fallback'' (Some \<lparr>clarity = 7, confidence = 7, content = 7, tone = 7\<rparr>)\<rparr>
   \<and> isModelAvailable ''Athena'' (store_athena True) \<and> truthy (ANTHROPIC_API_KEY all_keys)
   \<and> evaluateWithAthena all_throw (or_empty (userResponse (context_q' 2))) (context_q' 2) = Throws
   \<and> snd (evaluateResponse all_keys all_throw add_requests (january 10) (context_q' 2)
        (store_athena True)) =
       \<lparr>status = 200,
        body = EvaluationBody ''Response received and noted. Continue with the interview.''
                 ''Fallback'' (Some \<lparr>clarity = 7, confidence = 7, content = 7, tone = 7\<rparr>)\<rparr>"
proof -
  have h1: "\<not> isModelAvailable ''Athena'' (store_athena False)"
    by (simp add: athena_available)
  have h2: "\<not> truthy (ANTHROPIC_API_KEY no_keys)"
    by (simp add: no_keys_def truthy_def)
  have h3: "evaluateWithAthena all_throw (or_empty (userResponse (context_q' 2))) (context_q' 2)
            = Throws"
    by (simp add: all_throw_def answers_def)
  have h4: "isModelAvailable ''Athena'' (store_athena True) \<and> truthy (ANTHROPIC_API_KEY all_keys)"
    by (simp add: athena_available all_keys_def truthy_def)
  note a = evaluate_response_never_errors [of all_keys all_answer add_requests "january 10" "context_q' 2"
      "store_athena False", THEN conjunct2, THEN mp, OF disjI1, OF h1]
  note b = evaluate_response_never_errors [of no_keys all_answer add_requests "january 10" "context_q' 2"
      "store_athena True", THEN conjunct2, THEN mp, OF disjI2, OF disjI1, OF h2]
  note c = evaluate_response_never_errors [of all_keys all_throw add_requests "january 10" "context_q' 2"
      "store_athena True", THEN conjunct2, THEN mp, OF disjI2, OF disjI2, OF h3]
  from h1 h2 h3 h4 a b c show ?thesis
    by (intro conjI) simp_all
qed


section \<open>The exhausted providers\<close>

text \<open>
  Claim C8. Every row with \<open>credit_status = false\<close> for which neither the daily nor the monthly
  limit is exceeded (one switched off by the breaker, for example) is listed by
  \<open>get_exhausted_models\<close>, with the reason \<open>Monthly limit exceeded\<close>.
\<close>

theorem exhausted_query_reports_monthly:
  assumes "m \<in> set (ai_models d)" and "\<not> credit_status m"
    and "\<not> (daily_limit m > 0 \<and> current_daily_usage m \<ge> daily_limit m)"
    and "\<not> (monthly_limit m > 0 \<and> current_monthly_usage m \<ge> monthly_limit m)"
  shows "\<lparr>em_codename = codename m, name = original_name m,
          dailyUsage = current_daily_usage m, monthlyUsage = current_monthly_usage m,
          dailyLimit = daily_limit m, monthlyLimit = monthly_limit m,
          em_reason = ''Monthly limit exceeded''\<rparr> \<in> set (getExhaustedModels d)"
proof -
  from assms(1,2) have "m \<in> set (filter (\<lambda>m. \<not> credit_status m) (ai_models d))"
    by simp
  then show ?thesis
    unfolding getExhaustedModels_def using assms(3) by (force simp: image_iff)
qed


theorem exhausted_query_reports_monthly_witness:
  "provider ''Orion'' False \<in> set (ai_models (store_of [provider ''Titan'' True, provider ''Orion'' False]))
   \<and> \<not> credit_status (provider ''Orion'' False)
   \<and> \<not> (daily_limit (provider ''Orion'' False) > 0 \<and>
         current_daily_usage (provider ''Orion'' False) \<ge> daily_limit (provider ''Orion'' False))
   \<and> \<not> (monthly_limit (provider ''Orion'' False) > 0 \<and>
         current_monthly_usage (provider ''Orion'' False) \<ge> monthly_limit (provider ''Orion'' False))
   \<and> \<lparr>em_codename = ''Orion'', name = ''Orion'', dailyUsage = 0, monthlyUsage = 0,
       dailyLimit = 100, monthlyLimit = 1000, em_reason = ''Monthly limit exceeded''\<rparr>
      \<in> set (getExhaustedModels (store_of [provider ''Titan'' True, provider ''Orion'' False]))"
proof -
  let ?m = "provider ''Orion'' False"
  let ?d = "store_of [provider ''Titan'' True, provider ''Orion'' False]"
  have h1: "?m \<in> set (ai_models ?d)" by (simp add: store_of_def)
  have h2: "\<not> credit_status ?m" by (simp add: provider_def)
  have h3: "\<not> (daily_limit ?m > 0 \<and> current_daily_usage ?m \<ge> daily_limit ?m)"
    by (simp add: provider_def)
  have h4: "\<not> (monthly_limit ?m > 0 \<and> current_monthly_usage ?m \<ge> monthly_limit ?m)"
    by (simp add: provider_def)
  have "\<lparr>em_codename = codename ?m, name = original_name ?m,
          dailyUsage = current_daily_usage ?m, monthlyUsage = current_monthly_usage ?m,
          dailyLimit = daily_limit ?m, monthlyLimit = monthly_limit ?m,
          em_reason = ''Monthly limit exceeded''\<rparr> \<in> set (getExhaustedModels ?d)"
    by (rule exhausted_query_reports_monthly [OF h1 h2 h3 h4])
  then have "\<lparr>em_codename = ''Orion'', name = ''Orion'', dailyUsage = 0, monthlyUsage = 0,
       dailyLimit = 100, monthlyLimit = 1000, em_reason = ''Monthly limit exceeded''\<rparr>
      \<in> set (getExhaustedModels ?d)"
    by (simp add: provider_def)
  with h1 h2 h3 h4 show ?thesis by blast
qed


section \<open>Properties of the credit check\<close>

lemma checkModels_acc:
  "checkModels now ms ex ups =
     (ex @ List.map_filter (\<lambda>m. fst (checkModel now m)) ms,
      ups @ List.map_filter (\<lambda>m. snd (checkModel now m)) ms)"
proof (induction ms arbitrary: ex ups)
  case Nil
  then show ?case by (simp add: List.map_filter_simps)
next
  case (Cons m ms)
  show ?case
    by (cases "fst (checkModel now m)"; cases "snd (checkModel now m)")
       (simp_all add: Cons.IH pushed_def List.map_filter_simps)
qed

lemma snd_checkModel:
  "snd (checkModel now m) =
     (if needsUpdate now m then
        Some \<lparr>u_codename = codename m, u_credit_status = newStatus now m,
              u_current_daily_usage = newDailyUsage now m,
              u_current_monthly_usage = newMonthlyUsage now m,
              u_last_reset_daily = newDailyReset now m,
              u_last_reset_monthly = newMonthlyReset now m,
              u_last_checked = now\<rparr>
      else None)"
  by (simp add: checkModel_def)

lemma setColumns_written:
  "setColumns \<lparr>u_codename = codename m, u_credit_status = newStatus now m,
              u_current_daily_usage = newDailyUsage now m,
              u_current_monthly_usage = newMonthlyUsage now m,
              u_last_reset_daily = newDailyReset now m,
              u_last_reset_monthly = newMonthlyReset now m,
              u_last_checked = now\<rparr> m = written now m"
  by (simp add: setColumns_def written_def)

lemma codename_written: "codename (written now m) = codename m"
  by (simp add: written_def)

lemma updates_length:
  "length (List.map_filter (\<lambda>m. snd (checkModel now m)) ms) = length (filter (needsUpdate now) ms)"
  by (induction ms) (simp_all add: List.map_filter_simps snd_checkModel)

lemma applyUpdate_map: "applyUpdate table u = map (\<lambda>r. applyToRow r u) table"
  by (simp add: applyUpdate_def applyToRow_def)

lemma foldl_applyUpdate_map:
  "foldl applyUpdate table us = map (\<lambda>r. foldl applyToRow r us) table"
proof (induction us arbitrary: table)
  case Nil
  then show ?case by simp
next
  case (Cons u us)
  have "foldl applyUpdate table (u # us) = foldl applyUpdate (applyUpdate table u) us"
    by (simp only: foldl_Cons)
  also have "\<dots> = map (\<lambda>r. foldl applyToRow r us) (applyUpdate table u)"
    by (rule Cons.IH)
  also have "\<dots> = map (\<lambda>r. foldl applyToRow r us) (map (\<lambda>r. applyToRow r u) table)"
    by (simp only: applyUpdate_map)
  also have "\<dots> = map (\<lambda>r. foldl applyToRow r (u # us)) table"
    by (simp only: map_map o_def foldl_Cons)
  finally show ?case .
qed

lemma updates_of_Cons:
  "updates_of now (m # ms) =
     (if needsUpdate now m then
        \<lparr>u_codename = codename m, u_credit_status = newStatus now m,
         u_current_daily_usage = newDailyUsage now m,
         u_current_monthly_usage = newMonthlyUsage now m,
         u_last_reset_daily = newDailyReset now m,
         u_last_reset_monthly = newMonthlyReset now m,
         u_last_checked = now\<rparr> # updates_of now ms
      else updates_of now ms)"
  by (simp add: updates_of_def List.map_filter_simps snd_checkModel)

lemma updates_of_codenames: "u \<in> set (updates_of now ms) \<Longrightarrow> u_codename u \<in> codename ` set ms"
proof (induction ms)
  case Nil
  then show ?case by (simp add: updates_of_def List.map_filter_simps)
next
  case (Cons m ms)
  then show ?case by (auto simp add: updates_of_Cons split: if_splits)
qed

lemma applyToRow_same: "u_codename u = codename r \<Longrightarrow> applyToRow r u = setColumns u r"
  by (simp add: applyToRow_def)

lemma applyToRow_other: "u_codename u \<noteq> codename r \<Longrightarrow> applyToRow r u = r"
  by (auto simp add: applyToRow_def)

lemma foldl_applyToRow_foreign:
  "\<forall>u \<in> set us. u_codename u \<noteq> codename r \<Longrightarrow> foldl applyToRow r us = r"
  by (induction us) (simp_all add: applyToRow_other)

lemma row_after_updates:
  "distinct (map codename ms) \<Longrightarrow> r \<in> set ms \<Longrightarrow>
   foldl applyToRow r (updates_of now ms) = (if needsUpdate now r then written now r else r)"
proof (induction ms)
  case Nil
  then show ?case by simp
next
  case (Cons m ms)
  from Cons.prems have dist: "distinct (map codename ms)" and fresh: "codename m \<notin> codename ` set ms"
    by simp_all
  show ?case
  proof (cases "r = m")
    case True
    have foreign: "\<forall>u \<in> set (updates_of now ms). u_codename u \<noteq> codename m"
    proof
      fix u
      assume "u \<in> set (updates_of now ms)"
      then have "u_codename u \<in> codename ` set ms"
        by (rule updates_of_codenames)
      with fresh show "u_codename u \<noteq> codename m" by auto
    qed
    then have keep: "foldl applyToRow m (updates_of now ms) = m"
      by (rule foldl_applyToRow_foreign)
    from foreign have "\<forall>u \<in> set (updates_of now ms). u_codename u \<noteq> codename (written now m)"
      by (simp add: codename_written)
    then have keep': "foldl applyToRow (written now m) (updates_of now ms) = written now m"
      by (rule foldl_applyToRow_foreign)
    from True keep keep' show ?thesis
      by (simp add: updates_of_Cons applyToRow_same setColumns_written)
  next
    case False
    with Cons.prems have r: "r \<in> set ms" by simp
    with fresh have ne: "codename m \<noteq> codename r" by (metis imageI)
    from dist r have "foldl applyToRow r (updates_of now ms) =
        (if needsUpdate now r then written now r else r)"
      by (rule Cons.IH)
    with ne show ?thesis
      by (simp add: updates_of_Cons applyToRow_other)
  qed
qed

lemma table_after_updates:
  "distinct (map codename ms) \<Longrightarrow>
   foldl applyUpdate ms (updates_of now ms) =
     map (\<lambda>r. if needsUpdate now r then written now r else r) ms"
  by (simp add: foldl_applyUpdate_map row_after_updates cong: map_cong)

lemma checkAndUpdateCredits_eq:
  "checkAndUpdateCredits now d =
     Inr (d\<lparr>ai_models := foldl applyUpdate (ai_models d) (updates_of now (ai_models d))\<rparr>,
          \<lparr>success = True,
           exhaustedModels = List.map_filter (\<lambda>m. fst (checkModel now m)) (ai_models d),
           updatedModels = length (filter (needsUpdate now) (ai_models d)),
           timestamp = now\<rparr>)"
  by (simp add: checkAndUpdateCredits_def select_all_def checkModels_acc updates_of_def
        updates_length)

lemma daily_due_iff:
  "(daysSinceReset now m \<ge> 1) = (getTime (last_reset_daily m) + 86400000 \<le> getTime now)"
proof -
  have "(0 < (getTime now - getTime (last_reset_daily m)) div 86400000) =
        (86400000 \<le> getTime now - getTime (last_reset_daily m))"
    by (rule pos_imp_zdiv_pos_iff) simp
  then show ?thesis
    by (simp add: daysSinceReset_def) linarith
qed

lemma daily_due_moves:
  assumes "daysSinceReset now m \<ge> 1"
  shows "now \<noteq> last_reset_daily m"
proof
  assume "now = last_reset_daily m"
  then have "daysSinceReset now m = 0"
    by (simp add: daysSinceReset_def)
  with assms show False by simp
qed

lemma monthly_due_moves:
  assumes "monthsSinceReset now m \<ge> 1"
  shows "now \<noteq> last_reset_monthly m"
proof
  assume "now = last_reset_monthly m"
  then have "monthsSinceReset now m = 0"
    by (simp add: monthsSinceReset_def)
  with assms show False by simp
qed

lemma needsUpdate_iff_due_or_exceeded:
  "needsUpdate now m =
     (daysSinceReset now m \<ge> 1 \<or> monthsSinceReset now m \<ge> 1 \<or>
      dailyExceeded now m \<or> monthlyExceeded now m)"
  by (auto simp add: needsUpdate_def)

lemma changed_iff:
  "(changed now m \<or> dailyExceeded now m \<or> monthlyExceeded now m) =
     (daysSinceReset now m \<ge> 1 \<or> monthsSinceReset now m \<ge> 1 \<or>
      dailyExceeded now m \<or> monthlyExceeded now m)"
proof (cases "daysSinceReset now m \<ge> 1")
  case True
  then have "newDailyReset now m \<noteq> last_reset_daily m"
    by (simp add: newDailyReset_def daily_due_moves)
  with True show ?thesis by (simp add: changed_def)
next
  case nd: False
  show ?thesis
  proof (cases "monthsSinceReset now m \<ge> 1")
    case True
    then have "newMonthlyReset now m \<noteq> last_reset_monthly m"
      by (simp add: newMonthlyReset_def monthly_due_moves)
    with True show ?thesis by (simp add: changed_def)
  next
    case False
    with nd show ?thesis
      by (auto simp add: changed_def newStatus_def newDailyUsage_def newMonthlyUsage_def
            newDailyReset_def newMonthlyReset_def)
  qed
qed

lemma over_daily_facts:
  "daysSinceReset one_hour_into_january_10 orion_over_daily = 0"
  "monthsSinceReset one_hour_into_january_10 orion_over_daily = 0"
  by (simp_all add: daysSinceReset_def monthsSinceReset_def one_hour_into_january_10_def
        orion_over_daily_def january_def)

lemma over_daily_exceeded:
  "dailyExceeded one_hour_into_january_10 orion_over_daily"
  "\<not> monthlyExceeded one_hour_into_january_10 orion_over_daily"
  by (simp_all add: dailyExceeded_def monthlyExceeded_def newDailyUsage_def newMonthlyUsage_def
        over_daily_facts) (simp_all add: orion_over_daily_def)

lemma over_daily_unchanged: "\<not> changed one_hour_into_january_10 orion_over_daily"
  by (simp add: changed_def newStatus_def newDailyUsage_def newMonthlyUsage_def
        newDailyReset_def newMonthlyReset_def over_daily_facts over_daily_exceeded)
     (simp add: orion_over_daily_def)

lemma titan_quiet:
  "\<not> changed one_hour_into_january_10 (provider ''Titan'' True)"
  "\<not> dailyExceeded one_hour_into_january_10 (provider ''Titan'' True)"
  "\<not> monthlyExceeded one_hour_into_january_10 (provider ''Titan'' True)"
proof -
  have d: "daysSinceReset one_hour_into_january_10 (provider ''Titan'' True) = 0"
    by (simp add: daysSinceReset_def one_hour_into_january_10_def provider_def january_def)
  have m: "monthsSinceReset one_hour_into_january_10 (provider ''Titan'' True) = 0"
    by (simp add: monthsSinceReset_def one_hour_into_january_10_def provider_def january_def)
  show de: "\<not> dailyExceeded one_hour_into_january_10 (provider ''Titan'' True)"
    by (simp add: dailyExceeded_def newDailyUsage_def d) (simp add: provider_def)
  show me: "\<not> monthlyExceeded one_hour_into_january_10 (provider ''Titan'' True)"
    by (simp add: monthlyExceeded_def newMonthlyUsage_def m) (simp add: provider_def)
  from d m de me have "\<not> (daysSinceReset one_hour_into_january_10 (provider ''Titan'' True) \<ge> 1 \<or>
      monthsSinceReset one_hour_into_january_10 (provider ''Titan'' True) \<ge> 1 \<or>
      dailyExceeded one_hour_into_january_10 (provider ''Titan'' True) \<or>
      monthlyExceeded one_hour_into_january_10 (provider ''Titan'' True))"
    by simp
  then show "\<not> changed one_hour_into_january_10 (provider ''Titan'' True)"
    by (simp only: changed_iff [symmetric]) simp
qed

lemma written_over_daily:
  "written one_hour_into_january_10 orion_over_daily =
      orion_over_daily\<lparr>last_checked := one_hour_into_january_10\<rparr>"
  by (simp add: written_def newStatus_def newDailyUsage_def newMonthlyUsage_def
        newDailyReset_def newMonthlyReset_def over_daily_facts over_daily_exceeded)
     (simp add: orion_over_daily_def)

lemma exhausted_from_row:
  "e \<in> set (List.map_filter (\<lambda>m. fst (checkModel now m)) ms) \<Longrightarrow>
   \<exists>r \<in> set ms. fst (checkModel now r) = Some e"
  by (induction ms) (auto simp add: List.map_filter_simps split: option.splits)

lemma fst_checkModel:
  "fst (checkModel now m) =
     (if (dailyExceeded now m \<or> monthlyExceeded now m) \<and> credit_status m then
        Some \<lparr>ex_codename = codename m,
              reason = (if dailyExceeded now m then ''Daily limit exceeded''
                        else ''Monthly limit exceeded''),
              usage = (if dailyExceeded now m then newDailyUsage now m
                       else newMonthlyUsage now m),
              limit = (if dailyExceeded now m then daily_limit m else monthly_limit m)\<rparr>
      else None)"
  by (simp add: checkModel_def)

lemma exhausted_codename: "fst (checkModel now r) = Some e \<Longrightarrow> ex_codename e = codename r"
  by (auto simp add: fst_checkModel split: if_splits)

lemma unique_codename:
  "distinct (map codename ms) \<Longrightarrow> r \<in> set ms \<Longrightarrow> m \<in> set ms \<Longrightarrow>
   codename r = codename m \<Longrightarrow> r = m"
  by (metis distinct_map inj_on_eq_iff)

lemma filter_map_unique:
  "distinct (map codename ms) \<Longrightarrow> m \<in> set ms \<Longrightarrow> (\<And>r. codename (g r) = codename r) \<Longrightarrow>
   filter (\<lambda>r. codename r = codename m) (map g ms) = [g m]"
proof (induction ms)
  case Nil
  then show ?case by simp
next
  case (Cons a ms)
  show ?case
  proof (cases "a = m")
    case True
    from Cons.prems(1) True have "\<forall>r \<in> set ms. codename r \<noteq> codename m"
      by (metis distinct.simps(2) imageI list.simps(9) set_map)
    then have "filter (\<lambda>r. codename r = codename m) (map g ms) = []"
      by (simp add: filter_empty_conv Cons.prems(3))
    with True show ?thesis by (simp add: Cons.prems(3))
  next
    case False
    with Cons.prems(2) have m: "m \<in> set ms" by simp
    from Cons.prems(1) m have "codename a \<noteq> codename m"
      by (metis distinct.simps(2) imageI list.simps(9) set_map)
    moreover from Cons.prems(1) have "distinct (map codename ms)" by simp
    then have "filter (\<lambda>r. codename r = codename m) (map g ms) = [g m]"
      using m Cons.prems(3) by (rule Cons.IH)
    ultimately show ?thesis by (simp add: Cons.prems(3))
  qed
qed

lemma two_days_due:
  "daysSinceReset (january 10) (orion_two_days s k) = 2"
  "monthsSinceReset (january 10) (orion_two_days s k) = 0"
  by (simp_all add: daysSinceReset_def monthsSinceReset_def orion_two_days_def january_def)

lemma two_days_daily:
  "newDailyUsage (january 10) (orion_two_days s k) = 0"
  "newDailyReset (january 10) (orion_two_days s k) = january 10"
  "\<not> dailyExceeded (january 10) (orion_two_days s k)"
  by (simp_all add: newDailyUsage_def newDailyReset_def dailyExceeded_def two_days_due)

lemma two_days_monthly:
  "newMonthlyUsage (january 10) (orion_two_days s k) = k"
  "newMonthlyReset (january 10) (orion_two_days s k) = january 8"
  "monthlyExceeded (january 10) (orion_two_days s k) = (1000 \<le> k)"
  by (simp_all add: newMonthlyUsage_def newMonthlyReset_def monthlyExceeded_def two_days_due)
     (simp_all add: orion_two_days_def)

lemma two_days_needsUpdate: "needsUpdate (january 10) (orion_two_days s k)"
  by (simp add: needsUpdate_iff_due_or_exceeded two_days_due)


section \<open>What a credit check writes back\<close>

text \<open>
  Claim C5, as stated, fails: a row that is already at \<open>creditStatus = false\<close> with its daily
  limit still exceeded and no reset due comes out of the check with the same status, counters
  and reset timestamps, and yet it is written back (only \<open>last_checked\<close> moves) and counted in
  \<open>updatedModels\<close>.
\<close>

theorem unchanged_exhausted_row_written_and_counted:
  "\<not> changed one_hour_into_january_10 orion_over_daily
   \<and> checkAndUpdateCredits one_hour_into_january_10 (store_of [orion_over_daily]) =
       Inr (store_of [orion_over_daily\<lparr>last_checked := one_hour_into_january_10\<rparr>],
            \<lparr>success = True, exhaustedModels = [], updatedModels = 1,
             timestamp = one_hour_into_january_10\<rparr>)"
proof -
  have nu: "needsUpdate one_hour_into_january_10 orion_over_daily"
    by (simp add: needsUpdate_iff_due_or_exceeded over_daily_exceeded)
  have w: "written one_hour_into_january_10 orion_over_daily =
      orion_over_daily\<lparr>last_checked := one_hour_into_january_10\<rparr>"
    by (simp add: written_def newStatus_def newDailyUsage_def newMonthlyUsage_def
        newDailyReset_def newMonthlyReset_def over_daily_facts over_daily_exceeded)
       (simp add: orion_over_daily_def)
  have e: "fst (checkModel one_hour_into_january_10 orion_over_daily) = None"
    by (simp add: checkModel_def orion_over_daily_def)
  have "checkAndUpdateCredits one_hour_into_january_10 (store_of [orion_over_daily]) =
       Inr (store_of [orion_over_daily\<lparr>last_checked := one_hour_into_january_10\<rparr>],
            \<lparr>success = True, exhaustedModels = [], updatedModels = 1,
             timestamp = one_hour_into_january_10\<rparr>)"
    by (simp add: checkAndUpdateCredits_eq store_of_def table_after_updates nu w e
          List.map_filter_simps)
  with over_daily_unchanged show ?thesis by simp
qed


text \<open>
  Claim C5, amended. \<open>check_credits\<close> writes back exactly the rows whose status, counters or
  reset timestamps the check changes and, in addition, the rows with a limit exceeded after the
  resets, changed or not; these are the rows for which a daily or monthly reset is due or a
  limit is exceeded. \<open>updatedModels\<close> is the number of these rows. With unique codenames, every
  other row is left in the store as it was, and each of these rows gets the values of the check
  and \<open>last_checked = now\<close>.
\<close>

theorem check_credits_writes_changed_or_exceeded:
  "(changed now m \<or> dailyExceeded now m \<or> monthlyExceeded now m) =
     (daysSinceReset now m \<ge> 1 \<or> monthsSinceReset now m \<ge> 1 \<or>
      dailyExceeded now m \<or> monthlyExceeded now m)
   \<and> (\<exists>d' rep. checkAndUpdateCredits now d = Inr (d', rep) \<and>
        updatedModels rep =
          length (filter (\<lambda>r. changed now r \<or> dailyExceeded now r \<or> monthlyExceeded now r)
                    (ai_models d)) \<and>
        (distinct (map codename (ai_models d)) \<longrightarrow>
           ai_models d' =
             map (\<lambda>r. if changed now r \<or> dailyExceeded now r \<or> monthlyExceeded now r
                       then written now r else r) (ai_models d)))"
proof (intro conjI)
  show "(changed now m \<or> dailyExceeded now m \<or> monthlyExceeded now m) =
     (daysSinceReset now m \<ge> 1 \<or> monthsSinceReset now m \<ge> 1 \<or>
      dailyExceeded now m \<or> monthlyExceeded now m)"
    by (rule changed_iff)
next
  have nu: "needsUpdate now = (\<lambda>r. changed now r \<or> dailyExceeded now r \<or> monthlyExceeded now r)"
    by (rule ext) (simp only: changed_iff needsUpdate_iff_due_or_exceeded)
  let ?d' = "d\<lparr>ai_models := foldl applyUpdate (ai_models d) (updates_of now (ai_models d))\<rparr>"
  let ?rep = "\<lparr>success = True,
           exhaustedModels = List.map_filter (\<lambda>m. fst (checkModel now m)) (ai_models d),
           updatedModels = length (filter (needsUpdate now) (ai_models d)),
           timestamp = now\<rparr>"
  have 1: "checkAndUpdateCredits now d = Inr (?d', ?rep)"
    by (rule checkAndUpdateCredits_eq)
  have 2: "updatedModels ?rep =
          length (filter (\<lambda>r. changed now r \<or> dailyExceeded now r \<or> monthlyExceeded now r)
                    (ai_models d))"
    by (simp add: nu)
  have 3: "distinct (map codename (ai_models d)) \<longrightarrow>
           ai_models ?d' =
             map (\<lambda>r. if changed now r \<or> dailyExceeded now r \<or> monthlyExceeded now r
                       then written now r else r) (ai_models d)"
    by (simp add: table_after_updates nu)
  from 1 2 3 show "\<exists>d' rep. checkAndUpdateCredits now d = Inr (d', rep) \<and>
        updatedModels rep =
          length (filter (\<lambda>r. changed now r \<or> dailyExceeded now r \<or> monthlyExceeded now r)
                    (ai_models d)) \<and>
        (distinct (map codename (ai_models d)) \<longrightarrow>
           ai_models d' =
             map (\<lambda>r. if changed now r \<or> dailyExceeded now r \<or> monthlyExceeded now r
                       then written now r else r) (ai_models d))"
    by blast
qed


theorem check_credits_writes_changed_or_exceeded_witness:
  "distinct (map codename (ai_models store_over_daily))
   \<and> \<not> changed one_hour_into_january_10 (provider ''Titan'' True)
   \<and> \<not> dailyExceeded one_hour_into_january_10 (provider ''Titan'' True)
   \<and> \<not> monthlyExceeded one_hour_into_january_10 (provider ''Titan'' True)
   \<and> dailyExceeded one_hour_into_january_10 orion_over_daily
   \<and> (\<exists>d' rep. checkAndUpdateCredits one_hour_into_january_10 store_over_daily = Inr (d', rep) \<and>
         updatedModels rep = 1 \<and>
         ai_models d' = [orion_over_daily\<lparr>last_checked := one_hour_into_january_10\<rparr>,
                         provider ''Titan'' True])"
proof -
  have h: "distinct (map codename (ai_models store_over_daily))"
    by (simp add: store_over_daily_def store_of_def orion_over_daily_def provider_def)
  from check_credits_writes_changed_or_exceeded [of one_hour_into_january_10 orion_over_daily store_over_daily]
  obtain d' rep where
    r: "checkAndUpdateCredits one_hour_into_january_10 store_over_daily = Inr (d', rep)" and
    n: "updatedModels rep =
          length (filter (\<lambda>r. changed one_hour_into_january_10 r \<or>
                              dailyExceeded one_hour_into_january_10 r \<or>
                              monthlyExceeded one_hour_into_january_10 r)
                    (ai_models store_over_daily))" and
    t: "distinct (map codename (ai_models store_over_daily)) \<longrightarrow>
           ai_models d' =
             map (\<lambda>r. if changed one_hour_into_january_10 r \<or>
                          dailyExceeded one_hour_into_january_10 r \<or>
                          monthlyExceeded one_hour_into_january_10 r
                       then written one_hour_into_january_10 r else r)
               (ai_models store_over_daily)"
    by blast
  from n have n1: "updatedModels rep = 1"
    by (simp add: store_over_daily_def store_of_def titan_quiet over_daily_exceeded)
  from t h have "ai_models d' =
             map (\<lambda>r. if changed one_hour_into_january_10 r \<or>
                          dailyExceeded one_hour_into_january_10 r \<or>
                          monthlyExceeded one_hour_into_january_10 r
                       then written one_hour_into_january_10 r else r)
               (ai_models store_over_daily)"
    by blast
  then have t1: "ai_models d' = [orion_over_daily\<lparr>last_checked := one_hour_into_january_10\<rparr>,
                         provider ''Titan'' True]"
    by (simp add: store_over_daily_def store_of_def titan_quiet over_daily_exceeded
          written_over_daily)
  from r n1 t1 have "\<exists>d' rep. checkAndUpdateCredits one_hour_into_january_10 store_over_daily =
         Inr (d', rep) \<and> updatedModels rep = 1 \<and>
         ai_models d' = [orion_over_daily\<lparr>last_checked := one_hour_into_january_10\<rparr>,
                         provider ''Titan'' True]"
    by blast
  with h titan_quiet over_daily_exceeded(1) show ?thesis
    by (intro conjI)
qed


section \<open>The daily reset precedes the limit check\<close>

text \<open>
  Claim C3, as stated, fails: a row with \<open>dailyLimit = 100\<close>, \<open>dailyUsage = 150\<close> and
  \<open>lastResetDaily\<close> two days before now, whose monthly usage has reached its monthly limit in
  the current month, ends with \<open>dailyUsage = 0\<close> but \<open>creditStatus = false\<close>, and it is on the
  exhausted list, with the reason \<open>Monthly limit exceeded\<close>.
\<close>

theorem monthly_limit_still_exhausts_after_daily_reset:
  "daily_limit (orion_two_days True 1000) = 100
   \<and> current_daily_usage (orion_two_days True 1000) = 150
   \<and> getTime (january 10) - getTime (last_reset_daily (orion_two_days True 1000)) = 2 * 86400000
   \<and> checkAndUpdateCredits (january 10) (store_of [orion_two_days True 1000]) =
       Inr (store_of [(orion_two_days True 1000)
                        \<lparr>credit_status := False, current_daily_usage := 0,
                         last_reset_daily := january 10, last_checked := january 10\<rparr>],
            \<lparr>success = True,
             exhaustedModels = [\<lparr>ex_codename = ''Orion'', reason = ''Monthly limit exceeded'',
                                 usage = 1000, limit = 1000\<rparr>],
             updatedModels = 1, timestamp = january 10\<rparr>)"
proof -
  have w: "written (january 10) (orion_two_days True 1000) =
      (orion_two_days True 1000)
         \<lparr>credit_status := False, current_daily_usage := 0,
          last_reset_daily := january 10, last_checked := january 10\<rparr>"
    by (simp add: written_def newStatus_def two_days_daily two_days_monthly)
       (simp add: orion_two_days_def)
  have e: "fst (checkModel (january 10) (orion_two_days True 1000)) =
      Some \<lparr>ex_codename = ''Orion'', reason = ''Monthly limit exceeded'',
            usage = 1000, limit = 1000\<rparr>"
    by (simp add: fst_checkModel two_days_daily two_days_monthly) (simp add: orion_two_days_def)
  have "checkAndUpdateCredits (january 10) (store_of [orion_two_days True 1000]) =
       Inr (store_of [(orion_two_days True 1000)
                        \<lparr>credit_status := False, current_daily_usage := 0,
                         last_reset_daily := january 10, last_checked := january 10\<rparr>],
            \<lparr>success = True,
             exhaustedModels = [\<lparr>ex_codename = ''Orion'', reason = ''Monthly limit exceeded'',
                                 usage = 1000, limit = 1000\<rparr>],
             updatedModels = 1, timestamp = january 10\<rparr>)"
    by (simp add: checkAndUpdateCredits_eq store_of_def table_after_updates two_days_needsUpdate
          w e List.map_filter_simps)
  then show ?thesis
    by (simp add: orion_two_days_def january_def)
qed


text \<open>
  Claim C3, amended. For every row whose \<open>lastResetDaily\<close> is at least one day before now (in
  a store with unique codenames), \<open>check_credits\<close> zeroes \<open>dailyUsage\<close> and moves
  \<open>lastResetDaily\<close> to now before it tests the limits, so the daily limit is not exceeded and
  the row is never reported with a daily reason. If its monthly limit is not exceeded after the
  monthly reset test either, the row ends with \<open>creditStatus = true\<close> and is not on the
  exhausted list. So a row with \<open>dailyLimit = 100\<close>, \<open>dailyUsage = 150\<close>, \<open>lastResetDaily\<close> two
  days before now and its monthly usage under the monthly limit ends with \<open>dailyUsage = 0\<close>,
  \<open>creditStatus = true\<close>, and outside the exhausted list.
\<close>

theorem daily_reset_precedes_limit_check:
  assumes "m \<in> set (ai_models d)" and "distinct (map codename (ai_models d))"
    and "getTime (last_reset_daily m) + 86400000 \<le> getTime now"
  shows "\<exists>d' rep. checkAndUpdateCredits now d = Inr (d', rep)
     \<and> filter (\<lambda>r. codename r = codename m) (ai_models d') = [written now m]
     \<and> current_daily_usage (written now m) = 0
     \<and> last_reset_daily (written now m) = now
     \<and> \<not> dailyExceeded now m
     \<and> (\<forall>e \<in> set (exhaustedModels rep).
           ex_codename e = codename m \<longrightarrow> reason e = ''Monthly limit exceeded'')
     \<and> (\<not> monthlyExceeded now m \<longrightarrow>
           credit_status (written now m) \<and>
           (\<forall>e \<in> set (exhaustedModels rep). ex_codename e \<noteq> codename m))"
proof -
  let ?g = "\<lambda>r. if needsUpdate now r then written now r else r"
  let ?d' = "d\<lparr>ai_models := foldl applyUpdate (ai_models d) (updates_of now (ai_models d))\<rparr>"
  let ?ex = "List.map_filter (\<lambda>m. fst (checkModel now m)) (ai_models d)"
  let ?rep = "\<lparr>success = True, exhaustedModels = ?ex,
           updatedModels = length (filter (needsUpdate now) (ai_models d)),
           timestamp = now\<rparr>"
  from assms(3) have due: "daysSinceReset now m \<ge> 1"
    by (simp add: daily_due_iff)
  then have nu: "needsUpdate now m"
    by (simp add: needsUpdate_iff_due_or_exceeded)
  have 1: "checkAndUpdateCredits now d = Inr (?d', ?rep)"
    by (rule checkAndUpdateCredits_eq)
  have cg: "codename (?g r) = codename r" for r
    by (simp add: codename_written)
  from assms(2) have "ai_models ?d' = map ?g (ai_models d)"
    by (simp add: table_after_updates)
  moreover have "filter (\<lambda>r. codename r = codename m) (map ?g (ai_models d)) = [?g m]"
    using assms(2) assms(1) cg by (rule filter_map_unique)
  ultimately have 2: "filter (\<lambda>r. codename r = codename m) (ai_models ?d') = [written now m]"
    using nu by simp
  from due have 3: "current_daily_usage (written now m) = 0"
    by (simp add: written_def newDailyUsage_def)
  from due have 4: "last_reset_daily (written now m) = now"
    by (simp add: written_def newDailyReset_def)
  from due have 5: "\<not> dailyExceeded now m"
    by (simp add: dailyExceeded_def newDailyUsage_def)
  have own: "fst (checkModel now m) = Some e" if "e \<in> set ?ex" and "ex_codename e = codename m" for e
  proof -
    from that(1) obtain r where r: "r \<in> set (ai_models d)" and c: "fst (checkModel now r) = Some e"
      using exhausted_from_row by blast
    from c have "ex_codename e = codename r" by (rule exhausted_codename)
    with that(2) have "codename r = codename m" by simp
    with assms(2) r assms(1) have "r = m" by (rule unique_codename)
    with c show ?thesis by simp
  qed
  have 6: "\<forall>e \<in> set (exhaustedModels ?rep).
           ex_codename e = codename m \<longrightarrow> reason e = ''Monthly limit exceeded''"
  proof (intro ballI impI)
    fix e
    assume "e \<in> set (exhaustedModels ?rep)" and "ex_codename e = codename m"
    then have "fst (checkModel now m) = Some e" by (simp add: own)
    with 5 show "reason e = ''Monthly limit exceeded''"
      by (auto simp add: fst_checkModel split: if_splits)
  qed
  have 7: "\<not> monthlyExceeded now m \<longrightarrow>
           credit_status (written now m) \<and>
           (\<forall>e \<in> set (exhaustedModels ?rep). ex_codename e \<noteq> codename m)"
  proof (intro impI conjI ballI)
    assume nm: "\<not> monthlyExceeded now m"
    with 5 due show "credit_status (written now m)"
      by (simp add: written_def newStatus_def)
    fix e
    assume e: "e \<in> set (exhaustedModels ?rep)"
    show "ex_codename e \<noteq> codename m"
    proof
      assume "ex_codename e = codename m"
      with e have "fst (checkModel now m) = Some e" by (simp add: own)
      with 5 nm show False by (simp add: fst_checkModel)
    qed
  qed
  from 1 2 3 4 5 6 7 show ?thesis by blast
qed


theorem daily_reset_precedes_limit_check_witness:
  "orion_two_days False 10 \<in> set (ai_models (store_of [orion_two_days False 10]))
   \<and> distinct (map codename (ai_models (store_of [orion_two_days False 10])))
   \<and> getTime (last_reset_daily (orion_two_days False 10)) + 86400000 \<le> getTime (january 10)
   \<and> daily_limit (orion_two_days False 10) = 100
   \<and> current_daily_usage (orion_two_days False 10) = 150
   \<and> \<not> monthlyExceeded (january 10) (orion_two_days False 10)
   \<and> (\<exists>d' rep. checkAndUpdateCredits (january 10) (store_of [orion_two_days False 10]) =
         Inr (d', rep)
       \<and> map current_daily_usage (ai_models d') = [0]
       \<and> map credit_status (ai_models d') = [True]
       \<and> exhaustedModels rep = [])"
proof -
  let ?m = "orion_two_days False 10"
  let ?d = "store_of [?m]"
  have h1: "?m \<in> set (ai_models ?d)" by (simp add: store_of_def)
  have h2: "distinct (map codename (ai_models ?d))" by (simp add: store_of_def)
  have h3: "getTime (last_reset_daily ?m) + 86400000 \<le> getTime (january 10)"
    by (simp add: orion_two_days_def january_def)
  have h4: "\<not> monthlyExceeded (january 10) ?m" by (simp add: two_days_monthly)
  have h5: "daily_limit ?m = 100" "current_daily_usage ?m = 150"
    by (simp_all add: orion_two_days_def)
  from daily_reset_precedes_limit_check [OF h1 h2 h3] obtain d' rep where
    r: "checkAndUpdateCredits (january 10) ?d = Inr (d', rep)" and
    f: "filter (\<lambda>r. codename r = codename ?m) (ai_models d') = [written (january 10) ?m]" and
    u: "current_daily_usage (written (january 10) ?m) = 0" and
    s: "\<not> monthlyExceeded (january 10) ?m \<longrightarrow>
           credit_status (written (january 10) ?m) \<and>
           (\<forall>e \<in> set (exhaustedModels rep). ex_codename e \<noteq> codename ?m)"
    by blast
  from r have d': "ai_models d' = [written (january 10) ?m]"
    and ex: "exhaustedModels rep = List.map_filter (\<lambda>m. fst (checkModel (january 10) m)) [?m]"
    by (auto simp add: checkAndUpdateCredits_eq store_of_def table_after_updates
          two_days_needsUpdate)
  from s h4 have st: "credit_status (written (january 10) ?m)" by blast
  from ex have ex0: "exhaustedModels rep = []"
    by (simp add: List.map_filter_simps fst_checkModel two_days_daily two_days_monthly)
  from d' u st have uu: "map current_daily_usage (ai_models d') = [0]"
    and ss: "map credit_status (ai_models d') = [True]"
    by simp_all
  from r uu ss ex0 have "checkAndUpdateCredits (january 10) ?d = Inr (d', rep)
       \<and> map current_daily_usage (ai_models d') = [0]
       \<and> map credit_status (ai_models d') = [True]
       \<and> exhaustedModels rep = []"
    by (intro conjI)
  then have "\<exists>d' rep. checkAndUpdateCredits (january 10) ?d = Inr (d', rep)
       \<and> map current_daily_usage (ai_models d') = [0]
       \<and> map credit_status (ai_models d') = [True]
       \<and> exhaustedModels rep = []"
    by (intro exI)
  with h1 h2 h3 h4 h5 show ?thesis by (intro conjI)
qed


end
